theory Spec2Isabelle
  imports
    Main
    "HOL-Library.Word"
    "HOL-Library.Stream"
    "HOL-Library.Sublist"
    "HOL-Library.DAList"
begin

unbundle bit_operations_syntax

section \<open>The JSON-backed record store (package database)\<close>

text \<open>
  A shallow embedding of the persistence client of the repository: the schema, the
  file-level helpers and the eight public operations. Go strings are byte sequences and
  are modelled by \<^typ>\<open>string\<close>; a \<open>time.Time\<close> is the instant it denotes, in
  nanoseconds; Go's \<open>int\<close> is a 64-bit word. Everything the code obtains from outside
  (the file system, the clock, the random source) is read from an explicit \<open>world\<close>
  that the mutating operations return updated.
\<close>

subsection \<open>Go maps\<close>

text \<open>
  A Go map is either \<open>nil\<close> or a finite table with distinct keys. Reading a \<open>nil\<close>
  map finds nothing, deleting from it does nothing, and assigning to an entry of it
  panics. The order of the entries of the table stands for the order in which a
  \<open>range\<close> loop happens to visit them; Go leaves that order unspecified.
\<close>

datatype 'v gomap = NilMap | GoMap "(string, 'v) alist"

fun map_index :: "'v gomap \<Rightarrow> string \<Rightarrow> 'v option" where
  "map_index NilMap k = None"
| "map_index (GoMap al) k = DAList.lookup al k"

text \<open>\<open>m[k] = v\<close>; \<open>None\<close> is the panic "assignment to entry in nil map".\<close>

fun map_assign :: "'v gomap \<Rightarrow> string \<Rightarrow> 'v \<Rightarrow> 'v gomap option" where
  "map_assign NilMap k v = None"
| "map_assign (GoMap al) k v = Some (GoMap (DAList.update k v al))"

fun map_delete :: "'v gomap \<Rightarrow> string \<Rightarrow> 'v gomap" where
  "map_delete NilMap k = NilMap"
| "map_delete (GoMap al) k = GoMap (DAList.delete k al)"

fun map_range :: "'v gomap \<Rightarrow> (string \<times> 'v) list" where
  "map_range NilMap = []"
| "map_range (GoMap al) = DAList.impl_of al"

subsection \<open>Schema\<close>

type_synonym time = int

record Client =
  path :: string

record User =
  CreatedAt :: time
  Email :: string
  Password :: string
  Name :: string
  Age :: "64 word"

record Post =
  ID :: string
  PostCreatedAt :: time
  UserEmail :: string
  Text :: string

record databaseSchema =
  Users :: "User gomap"
  Posts :: "Post gomap"

definition NewClient :: "string \<Rightarrow> Client" where
  "NewClient p = \<lparr>path = p\<rparr>"

subsection \<open>Errors and results\<close>

text \<open>
  The dynamic types of the \<open>error\<close> values the package returns: the \<open>*fs.PathError\<close>
  of a failed \<open>os.ReadFile\<close> or \<open>os.WriteFile\<close> (operation, path, cause), the error of
  a failed \<open>json.Unmarshal\<close> or \<open>json.Marshal\<close>, and the \<open>*errors.errorString\<close>
  that \<open>fmt.Errorf\<close> builds from a format without \<open>%w\<close>.
\<close>

datatype error =
    PathError string string string
  | JsonError string
  | ErrorString string

fun Error :: "error \<Rightarrow> string" where
  "Error (PathError opn p cause) = opn @ '' '' @ p @ '': '' @ cause"
| "Error (JsonError s) = s"
| "Error (ErrorString s) = s"

text \<open>
  What a call does: it returns a value, returns an error (with the zero value, which
  is not modelled), or panics.
\<close>

datatype 'a result = Ok 'a | Err error | Panic string

subsection \<open>The world outside the program\<close>

text \<open>
  The bytes of a file are abstracted to what \<open>encoding/json\<close> makes of them: either
  the document they decode to, or text that does not decode. \<open>encoding/json\<close> is not
  part of the repository, and the embedding assumes that decoding what was encoded gives
  the document back. The library documents this for the values the store is meant to
  hold: strings that are valid UTF-8 (other bytes are replaced on encoding), integers,
  and instants with a year from 0 to 9999, written in RFC 3339 with nanoseconds. Nothing
  proved below is a statement about the encoding itself.
\<close>

datatype bytes = Json databaseSchema | Garbage string

text \<open>
  A path either holds bytes or fails to open with the text of a system error.
\<close>

datatype fsnode = Content bytes | Failing string

record world =
  fs :: "string \<Rightarrow> fsnode"
  wr_fail :: "string \<Rightarrow> string option"
  clock :: "time stream"
  rand :: "8 word stream"

definition os_ReadFile :: "string \<Rightarrow> world \<Rightarrow> error + bytes" where
  "os_ReadFile p w =
     (case fs w p of
        Content b \<Rightarrow> Inr b
      | Failing cause \<Rightarrow> Inl (PathError ''open'' p cause))"

text \<open>
  \<open>os.WriteFile\<close> replaces the whole content, or fails to open the file and leaves it
  as it was.
\<close>

definition os_WriteFile :: "string \<Rightarrow> bytes \<Rightarrow> world \<Rightarrow> error option \<times> world" where
  "os_WriteFile p data w =
     (case wr_fail w p of
        Some cause \<Rightarrow> (Some (PathError ''open'' p cause), w)
      | None \<Rightarrow> (None, w\<lparr>fs := (fs w)(p := Content data)\<rparr>))"

definition json_Marshal :: "databaseSchema \<Rightarrow> error + bytes" where
  "json_Marshal db = Inr (Json db)"

fun json_Unmarshal :: "bytes \<Rightarrow> error + databaseSchema" where
  "json_Unmarshal (Json db) = Inr db"
| "json_Unmarshal (Garbage s) = Inl (JsonError s)"

definition time_Now_UTC :: "world \<Rightarrow> time \<times> world" where
  "time_Now_UTC w = (shd (clock w), w\<lparr>clock := stl (clock w)\<rparr>)"

definition strings_Contains :: "string \<Rightarrow> string \<Rightarrow> bool" where
  "strings_Contains s substr = sublist substr s"

subsection \<open>File-level helpers\<close>

definition createDB :: "Client \<Rightarrow> world \<Rightarrow> error option \<times> world" where
  "createDB c w =
     (let emptyDB = \<lparr>Users = GoMap DAList.empty, Posts = GoMap DAList.empty\<rparr> in
      case json_Marshal emptyDB of
        Inl err \<Rightarrow> (Some err, w)
      | Inr data \<Rightarrow> os_WriteFile (path c) data w)"

definition updateDB :: "Client \<Rightarrow> databaseSchema \<Rightarrow> world \<Rightarrow> error option \<times> world" where
  "updateDB c db w =
     (case json_Marshal db of
        Inl err \<Rightarrow> (Some err, w)
      | Inr data \<Rightarrow> os_WriteFile (path c) data w)"

definition readDB :: "Client \<Rightarrow> world \<Rightarrow> error + databaseSchema" where
  "readDB c w =
     (case os_ReadFile (path c) w of
        Inl err \<Rightarrow> Inl err
      | Inr data \<Rightarrow>
          (case json_Unmarshal data of
             Inl err \<Rightarrow> Inl err
           | Inr db \<Rightarrow> Inr db))"

subsection \<open>User operations\<close>

definition CreateUser ::
  "Client \<Rightarrow> string \<Rightarrow> string \<Rightarrow> string \<Rightarrow> 64 word \<Rightarrow> world \<Rightarrow> User result \<times> world" where
  "CreateUser c email password name age w =
     (case readDB c w of
        Inl err \<Rightarrow> (Err err, w)
      | Inr db \<Rightarrow>
          (case map_index (Users db) email of
             Some _ \<Rightarrow>
               (Err (ErrorString (''user with email '' @ email @ '' already exists'')), w)
           | None \<Rightarrow>
               (let (now, w1) = time_Now_UTC w;
                    user = \<lparr>CreatedAt = now, Email = email, Password = password,
                            Name = name, Age = age\<rparr>
                in case map_assign (Users db) email user of
                     None \<Rightarrow> (Panic ''assignment to entry in nil map'', w1)
                   | Some users' \<Rightarrow>
                       (case updateDB c (db\<lparr>Users := users'\<rparr>) w1 of
                          (Some err, w2) \<Rightarrow> (Err err, w2)
                        | (None, w2) \<Rightarrow> (Ok user, w2)))))"

definition GetUser :: "Client \<Rightarrow> string \<Rightarrow> world \<Rightarrow> User result" where
  "GetUser c email w =
     (case readDB c w of
        Inl err \<Rightarrow> Err err
      | Inr db \<Rightarrow>
          (case map_index (Users db) email of
             None \<Rightarrow> Err (ErrorString (''user with email '' @ email @ '' doesn't exist''))
           | Some user \<Rightarrow> Ok user))"

definition UpdateUser ::
  "Client \<Rightarrow> string \<Rightarrow> string \<Rightarrow> string \<Rightarrow> 64 word \<Rightarrow> world \<Rightarrow> User result \<times> world" where
  "UpdateUser c email password name age w =
     (case readDB c w of
        Inl err \<Rightarrow> (Err err, w)
      | Inr db \<Rightarrow>
          (case map_index (Users db) email of
             None \<Rightarrow>
               (Err (ErrorString (''user with email '' @ email @ '' doesn't exist'')), w)
           | Some user0 \<Rightarrow>
               (let oldEmail = Email user0;
                    user = user0\<lparr>Email := email, Password := password,
                                 Name := name, Age := age\<rparr>
                in case map_assign (Users db) email user of
                     None \<Rightarrow> (Panic ''assignment to entry in nil map'', w)
                   | Some users1 \<Rightarrow>
                       (let users2 = (if oldEmail \<noteq> email
                                      then map_delete users1 oldEmail else users1)
                        in case updateDB c (db\<lparr>Users := users2\<rparr>) w of
                             (Some err, w1) \<Rightarrow> (Err err, w1)
                           | (None, w1) \<Rightarrow> (Ok user, w1)))))"

definition DeleteUser :: "Client \<Rightarrow> string \<Rightarrow> world \<Rightarrow> unit result \<times> world" where
  "DeleteUser c email w =
     (case readDB c w of
        Inl err \<Rightarrow> (Err err, w)
      | Inr db \<Rightarrow>
          (case map_index (Users db) email of
             None \<Rightarrow>
               (Err (ErrorString (''user with email '' @ email @ '' doesn't exist'')), w)
           | Some _ \<Rightarrow>
               (case updateDB c (db\<lparr>Users := map_delete (Users db) email\<rparr>) w of
                  (Some err, w1) \<Rightarrow> (Err err, w1)
                | (None, w1) \<Rightarrow> (Ok (), w1))))"

subsection \<open>Initialisation\<close>

definition EnsureDB_check :: "bytes \<Rightarrow> unit result" where
  "EnsureDB_check data =
     (case json_Unmarshal data of Inl err \<Rightarrow> Err err | Inr db \<Rightarrow> Ok ())"

definition EnsureDB :: "Client \<Rightarrow> world \<Rightarrow> unit result \<times> world" where
  "EnsureDB c w =
     (case os_ReadFile (path c) w of
        Inr data \<Rightarrow> (EnsureDB_check data, w)
      | Inl err \<Rightarrow>
          (if \<not> strings_Contains (Error err) ''no such file or directory''
           then (Err err, w)
           else (case createDB c w of
                   (Some err1, w1) \<Rightarrow> (Err err1, w1)
                 | (None, w1) \<Rightarrow>
                     (case os_ReadFile (path c) w1 of
                        Inl err2 \<Rightarrow> (Err err2, w1)
                      | Inr data \<Rightarrow> (EnsureDB_check data, w1)))))"

subsection \<open>Identifiers\<close>

text \<open>
  \<open>uuid.NewString\<close> of \<open>github.com/google/uuid\<close> (outside the repository): sixteen
  bytes are read from the random source, the version and variant bits are set, and the
  bytes are printed in hexadecimal in the groups 4-2-2-2-6 separated by hyphens.
\<close>

definition hexdigit :: "8 word \<Rightarrow> char" where
  "hexdigit n = ''0123456789abcdef'' ! unat (n AND 0x0f)"

fun hex_Encode :: "8 word list \<Rightarrow> string" where
  "hex_Encode [] = []"
| "hex_Encode (v # vs) = hexdigit (drop_bit 4 v) # hexdigit (v AND 0x0f) # hex_Encode vs"

definition uuid_String :: "8 word list \<Rightarrow> string" where
  "uuid_String u =
     hex_Encode (take 4 u) @ ''-'' @ hex_Encode (take 2 (drop 4 u)) @ ''-'' @
     hex_Encode (take 2 (drop 6 u)) @ ''-'' @ hex_Encode (take 2 (drop 8 u)) @ ''-'' @
     hex_Encode (drop 10 u)"

definition uuid_NewString :: "world \<Rightarrow> string \<times> world" where
  "uuid_NewString w =
     (let u0 = stake 16 (rand w);
          u1 = u0[6 := (u0 ! 6 AND 0x0f) OR 0x40];
          u2 = u1[8 := (u1 ! 8 AND 0x3f) OR 0x80]
      in (uuid_String u2, w\<lparr>rand := sdrop 16 (rand w)\<rparr>))"

subsection \<open>Post operations\<close>

definition CreatePost :: "Client \<Rightarrow> string \<Rightarrow> string \<Rightarrow> world \<Rightarrow> Post result \<times> world" where
  "CreatePost c userEmail text w =
     (case readDB c w of
        Inl err \<Rightarrow> (Err err, w)
      | Inr db \<Rightarrow>
          (case GetUser c userEmail w of
             Err err \<Rightarrow> (Err err, w)
           | Panic s \<Rightarrow> (Panic s, w)
           | Ok _ \<Rightarrow>
               (let (pid, w1) = uuid_NewString w;
                    (now, w2) = time_Now_UTC w1;
                    post = \<lparr>ID = pid, PostCreatedAt = now, UserEmail = userEmail,
                            Text = text\<rparr>
                in case map_assign (Posts db) pid post of
                     None \<Rightarrow> (Panic ''assignment to entry in nil map'', w2)
                   | Some posts' \<Rightarrow>
                       (case updateDB c (db\<lparr>Posts := posts'\<rparr>) w2 of
                          (Some err, w3) \<Rightarrow> (Err err, w3)
                        | (None, w3) \<Rightarrow> (Ok post, w3)))))"

definition GetPost :: "Client \<Rightarrow> string \<Rightarrow> world \<Rightarrow> Post result" where
  "GetPost c pid w =
     (case readDB c w of
        Inl err \<Rightarrow> Err err
      | Inr db \<Rightarrow>
          (case map_index (Posts db) pid of
             None \<Rightarrow> Err (ErrorString (''post with id '' @ pid @ '' doesn't exist''))
           | Some post \<Rightarrow> Ok post))"

text \<open>The \<open>range\<close> loop of \<open>GetPosts\<close>, with \<open>userPosts\<close> as the accumulator.\<close>

fun GetPosts_loop :: "(string \<times> Post) list \<Rightarrow> string \<Rightarrow> Post list \<Rightarrow> Post list" where
  "GetPosts_loop [] userEmail userPosts = userPosts"
| "GetPosts_loop ((k, post) # rest) userEmail userPosts =
     GetPosts_loop rest userEmail
       (if UserEmail post = userEmail then userPosts @ [post] else userPosts)"

definition GetPosts :: "Client \<Rightarrow> string \<Rightarrow> world \<Rightarrow> Post list result" where
  "GetPosts c userEmail w =
     (case readDB c w of
        Inl err \<Rightarrow> Err err
      | Inr db \<Rightarrow> Ok (GetPosts_loop (map_range (Posts db)) userEmail []))"

definition DeletePost :: "Client \<Rightarrow> string \<Rightarrow> world \<Rightarrow> unit result \<times> world" where
  "DeletePost c pid w =
     (case readDB c w of
        Inl err \<Rightarrow> (Err err, w)
      | Inr db \<Rightarrow>
          (case map_index (Posts db) pid of
             None \<Rightarrow>
               (Err (ErrorString (''post with id '' @ pid @ '' doesn't exist'')), w)
           | Some _ \<Rightarrow>
               (case updateDB c (db\<lparr>Posts := map_delete (Posts db) pid\<rparr>) w of
                  (Some err, w1) \<Rightarrow> (Err err, w1)
                | (None, w1) \<Rightarrow> (Ok (), w1))))"

subsection \<open>A concrete store\<close>

text \<open>
  The client of \<open>main\<close>, and worlds to run it in: \<open>w_absent\<close> has no file at all,
  \<open>w_fresh\<close> holds the document with two empty maps at \<open>./db.json\<close>. Writes succeed,
  the clock ticks once per reading, and the random source yields zero bytes only.
\<close>

definition c0 :: Client where
  "c0 = NewClient ''./db.json''"

definition emptyDB :: databaseSchema where
  "emptyDB = \<lparr>Users = GoMap DAList.empty, Posts = GoMap DAList.empty\<rparr>"

definition w_absent :: world where
  "w_absent = \<lparr>fs = (\<lambda>_. Failing ''no such file or directory''),
               wr_fail = (\<lambda>_. None),
               clock = siterate (\<lambda>t. t + 1) 0,
               rand = sconst 0\<rparr>"

definition w_fresh :: world where
  "w_fresh = w_absent\<lparr>fs := (fs w_absent)(''./db.json'' := Content (Json emptyDB))\<rparr>"

text \<open>
  \<open>w_ann\<close> holds one user, \<open>w_hello\<close> that user and one post of hers, stored under
  the identifier that the all-zero random source produces.
\<close>

definition ann :: User where
  "ann = \<lparr>CreatedAt = 0, Email = ''a@x.com'', Password = ''pw'', Name = ''Ann'', Age = 30\<rparr>"

definition db_ann :: databaseSchema where
  "db_ann = \<lparr>Users = GoMap (DAList.update ''a@x.com'' ann DAList.empty),
             Posts = GoMap DAList.empty\<rparr>"

definition w_ann :: world where
  "w_ann = w_absent\<lparr>fs := (fs w_absent)(''./db.json'' := Content (Json db_ann))\<rparr>"

definition zero_id :: string where
  "zero_id = ''00000000-0000-4000-8000-000000000000''"

definition hello :: Post where
  "hello = \<lparr>ID = zero_id, PostCreatedAt = 0, UserEmail = ''a@x.com'', Text = ''hello''\<rparr>"

definition db_hello :: databaseSchema where
  "db_hello = \<lparr>Users = GoMap (DAList.update ''a@x.com'' ann DAList.empty),
               Posts = GoMap (DAList.update zero_id hello DAList.empty)\<rparr>"

definition w_hello :: world where
  "w_hello = w_absent\<lparr>fs := (fs w_absent)(''./db.json'' := Content (Json db_hello))\<rparr>"

text \<open>
  Two more posts of the same user: \<open>again\<close> with another text, \<open>hello1\<close> created one
  tick later.
\<close>

definition again :: Post where
  "again = \<lparr>ID = zero_id, PostCreatedAt = 0, UserEmail = ''a@x.com'', Text = ''again''\<rparr>"

definition hello1 :: Post where
  "hello1 = \<lparr>ID = zero_id, PostCreatedAt = 1, UserEmail = ''a@x.com'', Text = ''hello''\<rparr>"

subsection \<open>Key and field coherence\<close>

text \<open>
  A document is coherent when every user is stored under its own email and every post
  under its own identifier. An \<open>operation\<close> is one call of the public interface;
  \<open>exec\<close> is the world it leaves and \<open>run\<close> performs a sequence of calls.
\<close>

definition coherent :: "databaseSchema \<Rightarrow> bool" where
  "coherent db \<longleftrightarrow>
     list_all (\<lambda>(k, u). Email u = k) (map_range (Users db)) \<and>
     list_all (\<lambda>(k, p). ID p = k) (map_range (Posts db))"

datatype operation =
    OpEnsureDB
  | OpCreateUser string string string "64 word"
  | OpUpdateUser string string string "64 word"
  | OpGetUser string
  | OpDeleteUser string
  | OpCreatePost string string
  | OpGetPost string
  | OpGetPosts string
  | OpDeletePost string

fun exec :: "Client \<Rightarrow> operation \<Rightarrow> world \<Rightarrow> world" where
  "exec c OpEnsureDB w = snd (EnsureDB c w)"
| "exec c (OpCreateUser email password name age) w = snd (CreateUser c email password name age w)"
| "exec c (OpUpdateUser email password name age) w = snd (UpdateUser c email password name age w)"
| "exec c (OpGetUser email) w = w"
| "exec c (OpDeleteUser email) w = snd (DeleteUser c email w)"
| "exec c (OpCreatePost userEmail text) w = snd (CreatePost c userEmail text w)"
| "exec c (OpGetPost pid) w = w"
| "exec c (OpGetPosts userEmail) w = w"
| "exec c (OpDeletePost pid) w = snd (DeletePost c pid w)"

fun run :: "Client \<Rightarrow> operation list \<Rightarrow> world \<Rightarrow> world" where
  "run c [] w = w"
| "run c (opn # ops) w = run c ops (exec c opn w)"

text \<open>The file of the client decodes to a coherent document.\<close>

definition holds_coherent :: "Client \<Rightarrow> world \<Rightarrow> bool" where
  "holds_coherent c w = (case readDB c w of Inl _ \<Rightarrow> False | Inr db \<Rightarrow> coherent db)"

subsection \<open>What a caller can see of an error\<close>

text \<open>
  A caller that does not read the message of an error can still see its dynamic type.
  \<open>passed_on\<close> says that an error is the one the file read, the decoding or the file
  write of this world produces; the operations pass such errors on as they are.
  \<open>w_corrupt\<close> is a world whose file does not decode.
\<close>

datatype go_type = T_PathError | T_JsonError | T_errorString

fun dynamic_type :: "error \<Rightarrow> go_type" where
  "dynamic_type (PathError opn p cause) = T_PathError"
| "dynamic_type (JsonError s) = T_JsonError"
| "dynamic_type (ErrorString s) = T_errorString"

definition write_error :: "Client \<Rightarrow> world \<Rightarrow> error option" where
  "write_error c w =
     (case wr_fail w (path c) of
        None \<Rightarrow> None
      | Some cause \<Rightarrow> Some (PathError ''open'' (path c) cause))"

definition passed_on :: "Client \<Rightarrow> world \<Rightarrow> error \<Rightarrow> bool" where
  "passed_on c w err \<longleftrightarrow> readDB c w = Inl err \<or> write_error c w = Some err"

definition w_corrupt :: world where
  "w_corrupt = w_absent\<lparr>fs := (fs w_absent)(''./db.json'' := Content (Garbage ''{''))\<rparr>"

subsection \<open>Documents without their maps\<close>

text \<open>
  A file that decodes but lacks a member leaves the corresponding Go map \<open>nil\<close>:
  \<open>w_nil\<close> holds the document \<open>{}\<close>, \<open>w_ann_noposts\<close> one user and no posts member.
  \<open>maps_present\<close> says that the file of the client decodes to a document with both maps.
\<close>

definition db_nil :: databaseSchema where
  "db_nil = \<lparr>Users = NilMap, Posts = NilMap\<rparr>"

definition w_nil :: world where
  "w_nil = w_absent\<lparr>fs := (fs w_absent)(''./db.json'' := Content (Json db_nil))\<rparr>"

definition db_ann_noposts :: databaseSchema where
  "db_ann_noposts = \<lparr>Users = GoMap (DAList.update ''a@x.com'' ann DAList.empty),
                       Posts = NilMap\<rparr>"

definition w_ann_noposts :: world where
  "w_ann_noposts =
     w_absent\<lparr>fs := (fs w_absent)(''./db.json'' := Content (Json db_ann_noposts))\<rparr>"

definition maps_present :: "Client \<Rightarrow> world \<Rightarrow> bool" where
  "maps_present c w =
     (case readDB c w of
        Inl _ \<Rightarrow> False
      | Inr db \<Rightarrow> Users db \<noteq> NilMap \<and> Posts db \<noteq> NilMap)"

section \<open>Basic facts\<close>

lemma path_c0 [simp]: "path c0 = ''./db.json''"
  by (simp add: c0_def NewClient_def)

lemma readDB_iff: "readDB c w = Inr db \<longleftrightarrow> fs w (path c) = Content (Json db)"
proof (cases "fs w (path c)")
  case (Content b)
  then show ?thesis by (cases b) (simp_all add: readDB_def os_ReadFile_def)
next
  case (Failing cause)
  then show ?thesis by (simp add: readDB_def os_ReadFile_def)
qed

lemma readDB_clock [simp]: "readDB c (w\<lparr>clock := k\<rparr>) = readDB c w"
  by (simp add: readDB_def os_ReadFile_def)

lemma readDB_rand [simp]: "readDB c (w\<lparr>rand := k\<rparr>) = readDB c w"
  by (simp add: readDB_def os_ReadFile_def)

lemma readDB_written [simp]:
  "readDB c (w\<lparr>fs := (fs w)(path c := Content (Json db))\<rparr>) = Inr db"
  by (simp add: readDB_def os_ReadFile_def)

lemma updateDB_ok:
  "wr_fail w (path c) = None \<Longrightarrow>
   updateDB c db w = (None, w\<lparr>fs := (fs w)(path c := Content (Json db))\<rparr>)"
  by (simp add: updateDB_def json_Marshal_def os_WriteFile_def)

lemma updateDB_fail:
  "wr_fail w (path c) = Some cause \<Longrightarrow>
   updateDB c db w = (Some (PathError ''open'' (path c) cause), w)"
  by (simp add: updateDB_def json_Marshal_def os_WriteFile_def)

lemma readDB_w_fresh [simp]: "readDB c0 w_fresh = Inr emptyDB"
  by (simp add: readDB_iff w_fresh_def)

lemma wr_fail_w_fresh [simp]: "wr_fail w_fresh p = None"
  by (simp add: w_fresh_def w_absent_def)

lemma clock_w_fresh [simp]: "shd (clock w_fresh) = 0"
  by (simp add: w_fresh_def w_absent_def)

lemma readDB_w_ann [simp]: "readDB c0 w_ann = Inr db_ann"
  by (simp add: readDB_iff w_ann_def)

lemma wr_fail_w_ann [simp]: "wr_fail w_ann p = None"
  by (simp add: w_ann_def w_absent_def)

lemma readDB_w_hello [simp]: "readDB c0 w_hello = Inr db_hello"
  by (simp add: readDB_iff w_hello_def)

lemma wr_fail_w_hello [simp]: "wr_fail w_hello p = None"
  by (simp add: w_hello_def w_absent_def)

lemma Users_db_ann [simp]:
  "map_index (Users db_ann) k = (if k = ''a@x.com'' then Some ann else None)"
  by (simp add: db_ann_def DAList.lookup_update)

lemma Users_db_hello [simp]:
  "map_index (Users db_hello) k = (if k = ''a@x.com'' then Some ann else None)"
  by (simp add: db_hello_def DAList.lookup_update)

lemma Posts_db_hello [simp]:
  "map_index (Posts db_hello) k = (if k = zero_id then Some hello else None)"
  by (simp add: db_hello_def DAList.lookup_update)


lemma readDB_alt:
  "readDB c w =
     (case fs w (path c) of
        Content (Json db) \<Rightarrow> Inr db
      | Content (Garbage s) \<Rightarrow> Inl (JsonError s)
      | Failing cause \<Rightarrow> Inl (PathError ''open'' (path c) cause))"
  by (simp add: readDB_def os_ReadFile_def split: fsnode.splits bytes.splits)

lemma map_index_assign:
  "map_assign m k v = Some m' \<Longrightarrow>
   map_index m' k' = (if k' = k then Some v else map_index m k')"
  by (cases m) (auto simp: DAList.lookup_update)

lemma map_assign_Some: "m \<noteq> NilMap \<Longrightarrow> \<exists>m'. map_assign m k v = Some m'"
  by (cases m) auto

lemma map_index_delete:
  "map_index (map_delete m k) k' = (if k' = k then None else map_index m k')"
  by (cases m) auto

lemma map_index_Some_not_Nil: "map_index m k = Some v \<Longrightarrow> m \<noteq> NilMap"
  by (cases m) auto

section \<open>Mutations that fail\<close>

text \<open>
  Claim C4. A mutation that fails on its key check writes nothing: \<open>CreateUser\<close> on
  an email that is already a key returns the "already exists" error and \<open>UpdateUser\<close>
  on an email that is not a key returns the "doesn't exist" error, and in both cases the
  world, and with it the persisted document, is exactly as before. In particular, after
  a successful \<open>CreateUser\<close> a second \<open>CreateUser\<close> with the same email fails, changes
  nothing, and \<open>GetUser\<close> still returns the user of the first call.
\<close>

theorem failed_mutation_leaves_store:
  "(readDB c w = Inr db \<and> map_index (Users db) e = Some u0 \<longrightarrow>
      CreateUser c e pw nm ag w =
        (Err (ErrorString (''user with email '' @ e @ '' already exists'')), w)) \<and>
   (readDB c w = Inr db \<and> map_index (Users db) e' = None \<longrightarrow>
      UpdateUser c e' pw nm ag w =
        (Err (ErrorString (''user with email '' @ e' @ '' doesn't exist'')), w)) \<and>
   (readDB c w = Inr db \<and> Users db \<noteq> NilMap \<and> map_index (Users db) e' = None \<and>
    wr_fail w (path c) = None \<longrightarrow>
      (let (r1, w1) = CreateUser c e' pw nm ag w;
           (r2, w2) = CreateUser c e' pw2 nm2 ag2 w1
       in r1 = Ok \<lparr>CreatedAt = shd (clock w), Email = e', Password = pw, Name = nm, Age = ag\<rparr> \<and>
          r2 = Err (ErrorString (''user with email '' @ e' @ '' already exists'')) \<and>
          w2 = w1 \<and> GetUser c e' w2 = r1))"
proof (intro conjI impI)
  assume "readDB c w = Inr db \<and> map_index (Users db) e = Some u0"
  then show "CreateUser c e pw nm ag w =
        (Err (ErrorString (''user with email '' @ e @ '' already exists'')), w)"
    by (simp add: CreateUser_def)
next
  assume "readDB c w = Inr db \<and> map_index (Users db) e' = None"
  then show "UpdateUser c e' pw nm ag w =
        (Err (ErrorString (''user with email '' @ e' @ '' doesn't exist'')), w)"
    by (simp add: UpdateUser_def)
next
  assume a: "readDB c w = Inr db \<and> Users db \<noteq> NilMap \<and> map_index (Users db) e' = None \<and>
    wr_fail w (path c) = None"
  then obtain us where us: "Users db = GoMap us"
    by (cases "Users db") auto
  from a have f: "fs w (path c) = Content (Json db)" by (simp add: readDB_iff)
  show "let (r1, w1) = CreateUser c e' pw nm ag w;
           (r2, w2) = CreateUser c e' pw2 nm2 ag2 w1
       in r1 = Ok \<lparr>CreatedAt = shd (clock w), Email = e', Password = pw, Name = nm, Age = ag\<rparr> \<and>
          r2 = Err (ErrorString (''user with email '' @ e' @ '' already exists'')) \<and>
          w2 = w1 \<and> GetUser c e' w2 = r1"
    using a f us
    by (simp add: CreateUser_def time_Now_UTC_def updateDB_ok Let_def GetUser_def
        DAList.lookup_update readDB_alt)
qed

theorem failed_mutation_leaves_store_witness:
  "readDB c0 w_ann = Inr db_ann \<and> map_index (Users db_ann) ''a@x.com'' = Some ann \<and>
   Users db_ann \<noteq> NilMap \<and> map_index (Users db_ann) ''b@x.com'' = None \<and>
   wr_fail w_ann (path c0) = None \<and>
   CreateUser c0 ''a@x.com'' ''other'' ''Bob'' 41 w_ann =
     (Err (ErrorString ''user with email a@x.com already exists''), w_ann) \<and>
   UpdateUser c0 ''b@x.com'' ''other'' ''Bob'' 41 w_ann =
     (Err (ErrorString ''user with email b@x.com doesn't exist''), w_ann) \<and>
   fst (CreateUser c0 ''b@x.com'' ''x'' ''Eve'' 7
         (snd (CreateUser c0 ''b@x.com'' ''other'' ''Bob'' 41 w_ann))) =
     Err (ErrorString ''user with email b@x.com already exists'') \<and>
   GetUser c0 ''b@x.com''
     (snd (CreateUser c0 ''b@x.com'' ''x'' ''Eve'' 7
         (snd (CreateUser c0 ''b@x.com'' ''other'' ''Bob'' 41 w_ann)))) =
     Ok \<lparr>CreatedAt = 0, Email = ''b@x.com'', Password = ''other'', Name = ''Bob'', Age = 41\<rparr>"
proof -
  have h: "Users db_ann \<noteq> NilMap" by (simp add: db_ann_def)
  have k: "shd (clock w_ann) = 0" by (simp add: w_ann_def w_absent_def)
  show ?thesis
    using failed_mutation_leaves_store[of c0 w_ann db_ann "''a@x.com''" ann
        "''other''" "''Bob''" 41 "''b@x.com''" "''x''" "''Eve''" 7] h k
    by (simp add: Let_def split: prod.splits)
qed

section \<open>Updating and deleting users\<close>



text \<open>
  Claim C6. When \<open>e\<close> is a key of the users map and the write succeeds,
  \<open>DeleteUser e\<close> stores the document with that one entry removed from the users map:
  every other user stays, the posts map is the same (also the posts whose
  \<open>userEmail\<close> is \<open>e\<close>), so \<open>GetPosts\<close> answers as before, and a following
  \<open>GetUser e\<close> fails with the "doesn't exist" error.
\<close>

theorem DeleteUser_existing:
  assumes "readDB c w = Inr db" and "map_index (Users db) e = Some u0"
    and "wr_fail w (path c) = None"
  shows "let (r, w') = DeleteUser c e w
         in r = Ok () \<and>
            readDB c w' = Inr (db\<lparr>Users := map_delete (Users db) e\<rparr>) \<and>
            (\<exists>db'. readDB c w' = Inr db' \<and> map_index (Users db') e = None \<and>
               (\<forall>k. k \<noteq> e \<longrightarrow> map_index (Users db') k = map_index (Users db) k) \<and>
               Posts db' = Posts db) \<and>
            GetUser c e w' = Err (ErrorString (''user with email '' @ e @ '' doesn't exist'')) \<and>
            (\<forall>e'. GetPosts c e' w' = GetPosts c e' w)"
  using assms[unfolded readDB_iff]
  by (simp add: DeleteUser_def updateDB_ok GetUser_def GetPosts_def readDB_alt map_index_delete)

theorem DeleteUser_existing_witness:
  "readDB c0 w_hello = Inr db_hello \<and> map_index (Users db_hello) ''a@x.com'' = Some ann \<and>
   wr_fail w_hello (path c0) = None \<and>
   fst (DeleteUser c0 ''a@x.com'' w_hello) = Ok () \<and>
   GetUser c0 ''a@x.com'' (snd (DeleteUser c0 ''a@x.com'' w_hello)) =
     Err (ErrorString ''user with email a@x.com doesn't exist'') \<and>
   GetPosts c0 ''a@x.com'' (snd (DeleteUser c0 ''a@x.com'' w_hello)) =
     GetPosts c0 ''a@x.com'' w_hello"
proof -
  have h1: "readDB c0 w_hello = Inr db_hello" by simp
  have h2: "map_index (Users db_hello) ''a@x.com'' = Some ann" by simp
  have h3: "wr_fail w_hello (path c0) = None" by simp
  show ?thesis
    using DeleteUser_existing[OF h1 h2 h3] h2
    by (simp add: Let_def split: prod.splits)
qed

section \<open>Listing the posts of a user\<close>

lemma GetPosts_loop_filter:
  "GetPosts_loop xs e acc = acc @ map snd (filter (\<lambda>(k, p). UserEmail p = e) xs)"
  by (induction xs e acc rule: GetPosts_loop.induct) simp_all

lemma map_index_range:
  "map_index m k = Some v \<longleftrightarrow> (k, v) \<in> set (map_range m)"
proof (cases m)
  case NilMap
  then show ?thesis by simp
next
  case (GoMap al)
  then show ?thesis by (simp add: DAList.lookup.rep_eq)
qed

lemma distinct_map_range: "distinct (map fst (map_range m))"
  by (cases m) simp_all

lemma length_filter_keys:
  assumes "distinct (map fst xs)"
  shows "length (filter (\<lambda>(k, p). Q p) xs) = card {k. \<exists>p. (k, p) \<in> set xs \<and> Q p}"
proof -
  let ?ys = "filter (\<lambda>(k, p). Q p) xs"
  have d: "distinct (map fst ?ys)"
    using assms by (rule distinct_map_fst_filter)
  have "{k. \<exists>p. (k, p) \<in> set xs \<and> Q p} = set (map fst ?ys)"
    by (auto simp: image_iff)
  then show ?thesis
    using distinct_card[OF d] by simp
qed

text \<open>
  Claim C7. For every readable document and every email \<open>e\<close>, \<open>GetPosts e\<close> returns
  without error a list that holds exactly the posts whose \<open>userEmail\<close> is \<open>e\<close>, one
  for each key under which such a post is stored; no order is promised. The users map is
  not consulted, and when no post matches the list is empty.
\<close>

theorem GetPosts_exact:
  assumes "readDB c w = Inr db"
  shows "\<exists>ps. GetPosts c e w = Ok ps \<and>
           set ps = {p. \<exists>k. map_index (Posts db) k = Some p \<and> UserEmail p = e} \<and>
           length ps = card {k. \<exists>p. map_index (Posts db) k = Some p \<and> UserEmail p = e} \<and>
           ((\<forall>k p. map_index (Posts db) k = Some p \<longrightarrow> UserEmail p \<noteq> e) \<longrightarrow> ps = [])"
proof -
  let ?xs = "map_range (Posts db)"
  let ?ps = "map snd (filter (\<lambda>(k, p). UserEmail p = e) ?xs)"
  have run: "GetPosts c e w = Ok ?ps"
    using assms by (simp add: GetPosts_def GetPosts_loop_filter)
  have s: "set ?ps = {p. \<exists>k. map_index (Posts db) k = Some p \<and> UserEmail p = e}"
    by (auto simp: map_index_range image_iff)
  have l: "length ?ps = card {k. \<exists>p. map_index (Posts db) k = Some p \<and> UserEmail p = e}"
    using length_filter_keys[OF distinct_map_range, of "\<lambda>p. UserEmail p = e" "Posts db"]
    by (simp add: map_index_range)
  have n: "(\<forall>k p. map_index (Posts db) k = Some p \<longrightarrow> UserEmail p \<noteq> e) \<longrightarrow> ?ps = []"
    by (auto simp: map_index_range filter_empty_conv)
  from run s l n show ?thesis by blast
qed

theorem GetPosts_exact_witness:
  "readDB c0 w_hello = Inr db_hello \<and>
   GetPosts c0 ''a@x.com'' w_hello = Ok [hello] \<and>
   GetPosts c0 ''nobody@x.com'' w_hello = Ok []"
proof -
  have h1: "readDB c0 w_hello = Inr db_hello" by simp
  have u: "UserEmail hello = ''a@x.com''" by (simp add: hello_def)
  from GetPosts_exact[OF h1, of "''a@x.com''"] obtain ps where
    ps: "GetPosts c0 ''a@x.com'' w_hello = Ok ps"
      "set ps = {p. \<exists>k. map_index (Posts db_hello) k = Some p \<and> UserEmail p = ''a@x.com''}"
      "length ps = card {k. \<exists>p. map_index (Posts db_hello) k = Some p \<and> UserEmail p = ''a@x.com''}"
    by blast
  have "set ps = {hello}" using ps(2) u by auto
  moreover have "length ps = 1" using ps(3) u by simp
  ultimately have "ps = [hello]"
    by (cases ps) auto
  moreover from GetPosts_exact[OF h1, of "''nobody@x.com''"] u
  have "GetPosts c0 ''nobody@x.com'' w_hello = Ok []"
    by (auto split: if_splits)
  ultimately show ?thesis using ps(1) by simp
qed

section \<open>Initialisation\<close>


lemma createDB_ok:
  "wr_fail w (path c) = None \<Longrightarrow>
   createDB c w = (None, w\<lparr>fs := (fs w)(path c := Content (Json emptyDB))\<rparr>)"
  by (simp add: createDB_def json_Marshal_def os_WriteFile_def emptyDB_def)

lemma createDB_fail:
  "wr_fail w (path c) = Some cause \<Longrightarrow>
   createDB c w = (Some (PathError ''open'' (path c) cause), w)"
  by (simp add: createDB_def json_Marshal_def os_WriteFile_def)

lemma EnsureDB_present:
  "fs w (path c) = Content b \<Longrightarrow> EnsureDB c w = (EnsureDB_check b, w)"
  by (simp add: EnsureDB_def os_ReadFile_def)




section \<open>Keys agree with the records stored under them\<close>

lemma coherent_iff:
  "coherent db \<longleftrightarrow>
     (\<forall>k u. map_index (Users db) k = Some u \<longrightarrow> Email u = k) \<and>
     (\<forall>k p. map_index (Posts db) k = Some p \<longrightarrow> ID p = k)"
  by (auto simp: coherent_def list_all_iff map_index_range)

lemma coherent_emptyDB: "coherent emptyDB"
  by (simp add: coherent_def emptyDB_def DAList.empty.rep_eq)

lemma holds_coherent_iff:
  "holds_coherent c w \<longleftrightarrow> (\<exists>db. readDB c w = Inr db \<and> coherent db)"
  by (cases "readDB c w") (simp_all add: holds_coherent_def)

lemma holds_coherent_clock [simp]: "holds_coherent c (w\<lparr>clock := k\<rparr>) = holds_coherent c w"
  by (simp add: holds_coherent_def)

lemma holds_coherent_rand [simp]: "holds_coherent c (w\<lparr>rand := k\<rparr>) = holds_coherent c w"
  by (simp add: holds_coherent_def)

lemma coh_updateDB:
  assumes "holds_coherent c w" and "coherent db'"
  shows "holds_coherent c (snd (updateDB c db' w))"
proof (cases "wr_fail w (path c)")
  case None
  then show ?thesis using assms(2) by (simp add: updateDB_ok holds_coherent_def)
next
  case (Some cause)
  then show ?thesis using assms(1) by (simp add: updateDB_fail)
qed

lemma snd_write_result:
  "snd (case x of (None, w2) \<Rightarrow> (f w2, w2) | (Some err, w2) \<Rightarrow> (g err w2, w2)) = snd x"
  by (cases x) (simp split: option.splits)

lemma coherent_Users_assign:
  assumes "coherent db" and "map_assign (Users db) e u = Some us'" and "Email u = e"
  shows "coherent (db\<lparr>Users := us'\<rparr>)"
  using assms by (simp add: coherent_iff map_index_assign)

lemma coherent_Users_delete:
  "coherent db \<Longrightarrow> coherent (db\<lparr>Users := map_delete (Users db) e\<rparr>)"
  by (simp add: coherent_iff map_index_delete)

lemma coherent_Users_delete':
  "coherent (db\<lparr>Users := us\<rparr>) \<Longrightarrow> coherent (db\<lparr>Users := map_delete us e\<rparr>)"
  by (simp add: coherent_iff map_index_delete)

lemma coherent_Posts_assign:
  assumes "coherent db" and "map_assign (Posts db) k p = Some ps'" and "ID p = k"
  shows "coherent (db\<lparr>Posts := ps'\<rparr>)"
  using assms by (simp add: coherent_iff map_index_assign)

lemma coherent_Posts_delete:
  "coherent db \<Longrightarrow> coherent (db\<lparr>Posts := map_delete (Posts db) k\<rparr>)"
  by (simp add: coherent_iff map_index_delete)

lemma coh_CreateUser:
  assumes "holds_coherent c w"
  shows "holds_coherent c (snd (CreateUser c e pw nm ag w))"
proof -
  from assms obtain db where r: "readDB c w = Inr db" and co: "coherent db"
    by (auto simp: holds_coherent_iff)
  show ?thesis
    using r assms co
    by (auto simp: CreateUser_def time_Now_UTC_def Let_def snd_write_result
        intro!: coh_updateDB coherent_Users_assign split: option.splits)
qed

lemma coh_UpdateUser:
  assumes "holds_coherent c w"
  shows "holds_coherent c (snd (UpdateUser c e pw nm ag w))"
proof -
  from assms obtain db where r: "readDB c w = Inr db" and co: "coherent db"
    by (auto simp: holds_coherent_iff)
  show ?thesis
    using r assms co
    by (auto simp: UpdateUser_def Let_def snd_write_result
        intro!: coh_updateDB coherent_Users_assign coherent_Users_delete'
        split: option.splits)
qed

lemma coh_DeleteUser:
  assumes "holds_coherent c w"
  shows "holds_coherent c (snd (DeleteUser c e w))"
proof -
  from assms obtain db where r: "readDB c w = Inr db" and co: "coherent db"
    by (auto simp: holds_coherent_iff)
  show ?thesis
    using r assms co
    by (auto simp: DeleteUser_def snd_write_result
        intro!: coh_updateDB coherent_Users_delete split: option.splits)
qed

lemma coh_DeletePost:
  assumes "holds_coherent c w"
  shows "holds_coherent c (snd (DeletePost c k w))"
proof -
  from assms obtain db where r: "readDB c w = Inr db" and co: "coherent db"
    by (auto simp: holds_coherent_iff)
  show ?thesis
    using r assms co
    by (auto simp: DeletePost_def snd_write_result
        intro!: coh_updateDB coherent_Posts_delete split: option.splits)
qed

lemma coh_CreatePost:
  assumes "holds_coherent c w"
  shows "holds_coherent c (snd (CreatePost c e t w))"
proof -
  from assms obtain db where r: "readDB c w = Inr db" and co: "coherent db"
    by (auto simp: holds_coherent_iff)
  show ?thesis
    using r assms co
    by (auto simp: CreatePost_def uuid_NewString_def time_Now_UTC_def Let_def snd_write_result
        intro!: coh_updateDB coherent_Posts_assign split: option.splits result.splits)
qed

lemma coh_EnsureDB:
  assumes "holds_coherent c w"
  shows "holds_coherent c (snd (EnsureDB c w))"
proof -
  from assms obtain db where r: "readDB c w = Inr db"
    by (auto simp: holds_coherent_iff)
  then have "EnsureDB c w = (Ok (), w)"
    by (simp add: readDB_iff EnsureDB_present EnsureDB_check_def)
  with assms show ?thesis by simp
qed

lemma coh_exec: "holds_coherent c w \<Longrightarrow> holds_coherent c (exec c opn w)"
  by (cases opn)
     (simp_all add: coh_EnsureDB coh_CreateUser coh_UpdateUser coh_DeleteUser
        coh_CreatePost coh_DeletePost)

lemma coh_run: "holds_coherent c w \<Longrightarrow> holds_coherent c (run c ops w)"
  by (induction ops arbitrary: w) (simp_all add: coh_exec)

text \<open>
  Claim C10. Key and field coherence is an invariant of the store. From a file that
  holds the document with two empty maps, any sequence of calls of the public operations
  leaves a file that decodes to a coherent document; more generally each single call
  preserves coherence of the stored document. Coherent means: every entry of the users
  map has its key as the \<open>email\<close> field, and every entry of the posts map has its key as
  the \<open>id\<close> field.
\<close>

theorem coherence_invariant:
  "(readDB c w = Inr \<lparr>Users = GoMap DAList.empty, Posts = GoMap DAList.empty\<rparr> \<longrightarrow>
      holds_coherent c (run c ops w)) \<and>
   (holds_coherent c w \<longrightarrow> holds_coherent c (exec c opn w)) \<and>
   (holds_coherent c w \<longleftrightarrow>
      (\<exists>db. readDB c w = Inr db \<and>
         (\<forall>k u. map_index (Users db) k = Some u \<longrightarrow> Email u = k) \<and>
         (\<forall>k p. map_index (Posts db) k = Some p \<longrightarrow> ID p = k)))"
proof (intro conjI impI)
  assume "readDB c w = Inr \<lparr>Users = GoMap DAList.empty, Posts = GoMap DAList.empty\<rparr>"
  then have "holds_coherent c w"
    using coherent_emptyDB by (simp add: holds_coherent_iff emptyDB_def)
  then show "holds_coherent c (run c ops w)"
    by (rule coh_run)
next
  assume "holds_coherent c w"
  then show "holds_coherent c (exec c opn w)"
    by (rule coh_exec)
next
  show "holds_coherent c w \<longleftrightarrow>
      (\<exists>db. readDB c w = Inr db \<and>
         (\<forall>k u. map_index (Users db) k = Some u \<longrightarrow> Email u = k) \<and>
         (\<forall>k p. map_index (Posts db) k = Some p \<longrightarrow> ID p = k))"
    by (simp add: holds_coherent_iff coherent_iff)
qed

theorem coherence_invariant_witness:
  "readDB c0 w_fresh = Inr \<lparr>Users = GoMap DAList.empty, Posts = GoMap DAList.empty\<rparr> \<and>
   holds_coherent c0
     (run c0 [OpCreateUser ''a@x.com'' ''pw'' ''Ann'' 30, OpCreatePost ''a@x.com'' ''hello'',
              OpUpdateUser ''a@x.com'' ''new'' ''Anna'' 31, OpDeleteUser ''a@x.com''] w_fresh) \<and>
   holds_coherent c0 w_hello \<and>
   holds_coherent c0 (exec c0 (OpDeletePost zero_id) w_hello)"
proof -
  have h1: "readDB c0 w_fresh = Inr \<lparr>Users = GoMap DAList.empty, Posts = GoMap DAList.empty\<rparr>"
    by (simp add: emptyDB_def)
  have h2: "holds_coherent c0 w_hello"
    by (simp add: holds_coherent_iff coherent_iff ann_def hello_def)
  show ?thesis
    using coherence_invariant[of c0 w_fresh
        "[OpCreateUser ''a@x.com'' ''pw'' ''Ann'' 30, OpCreatePost ''a@x.com'' ''hello'',
          OpUpdateUser ''a@x.com'' ''new'' ''Anna'' 31, OpDeleteUser ''a@x.com'']"]
      coherence_invariant[of c0 w_hello _ "OpDeletePost zero_id"] h1 h2
    by blast
qed

section \<open>The errors the operations return\<close>

lemma updateDB_result:
  "updateDB c db w =
     (case write_error c w of
        None \<Rightarrow> (None, w\<lparr>fs := (fs w)(path c := Content (Json db))\<rparr>)
      | Some err \<Rightarrow> (Some err, w))"
  by (simp add: updateDB_def json_Marshal_def os_WriteFile_def write_error_def
      split: option.splits)

lemma write_error_clock [simp]: "write_error c (w\<lparr>clock := k\<rparr>) = write_error c w"
  by (simp add: write_error_def)

lemma write_error_rand [simp]: "write_error c (w\<lparr>rand := k\<rparr>) = write_error c w"
  by (simp add: write_error_def)

lemma err_CreateUser:
  "fst (CreateUser c e pw nm ag w) = Err err \<Longrightarrow>
   passed_on c w err \<or> err = ErrorString (''user with email '' @ e @ '' already exists'')"
  by (auto simp: CreateUser_def passed_on_def time_Now_UTC_def Let_def updateDB_result
      split: sum.splits option.splits)

lemma err_UpdateUser:
  "fst (UpdateUser c e pw nm ag w) = Err err \<Longrightarrow>
   passed_on c w err \<or> err = ErrorString (''user with email '' @ e @ '' doesn't exist'')"
  by (auto simp: UpdateUser_def passed_on_def Let_def updateDB_result
      split: sum.splits option.splits)

lemma err_GetUser:
  "GetUser c e w = Err err \<Longrightarrow>
   readDB c w = Inl err \<or> err = ErrorString (''user with email '' @ e @ '' doesn't exist'')"
  by (auto simp: GetUser_def split: sum.splits option.splits)

lemma err_DeleteUser:
  "fst (DeleteUser c e w) = Err err \<Longrightarrow>
   passed_on c w err \<or> err = ErrorString (''user with email '' @ e @ '' doesn't exist'')"
  by (auto simp: DeleteUser_def passed_on_def updateDB_result
      split: sum.splits option.splits)

lemma err_CreatePost:
  "fst (CreatePost c e t w) = Err err \<Longrightarrow>
   passed_on c w err \<or> err = ErrorString (''user with email '' @ e @ '' doesn't exist'')"
  by (auto simp: CreatePost_def GetUser_def passed_on_def uuid_NewString_def time_Now_UTC_def
      Let_def updateDB_result split: sum.splits option.splits)

lemma err_GetPost:
  "GetPost c k w = Err err \<Longrightarrow>
   readDB c w = Inl err \<or> err = ErrorString (''post with id '' @ k @ '' doesn't exist'')"
  by (auto simp: GetPost_def split: sum.splits option.splits)

lemma err_GetPosts: "GetPosts c e w = Err err \<Longrightarrow> readDB c w = Inl err"
  by (auto simp: GetPosts_def split: sum.splits)

lemma err_DeletePost:
  "fst (DeletePost c k w) = Err err \<Longrightarrow>
   passed_on c w err \<or> err = ErrorString (''post with id '' @ k @ '' doesn't exist'')"
  by (auto simp: DeletePost_def passed_on_def updateDB_result
      split: sum.splits option.splits)

lemma err_EnsureDB: "fst (EnsureDB c w) = Err err \<Longrightarrow> passed_on c w err"
proof (cases "fs w (path c)")
  case (Content b)
  assume "fst (EnsureDB c w) = Err err"
  with Content show ?thesis
    by (cases b) (simp_all add: EnsureDB_present EnsureDB_check_def passed_on_def readDB_alt)
next
  case (Failing cause)
  assume e: "fst (EnsureDB c w) = Err err"
  show ?thesis
  proof (cases "wr_fail w (path c)")
    case None
    with e Failing show ?thesis
      by (simp add: EnsureDB_def os_ReadFile_def createDB_ok EnsureDB_check_def passed_on_def
          readDB_alt split: if_splits)
  next
    case (Some a)
    with e Failing show ?thesis
      by (auto simp: EnsureDB_def os_ReadFile_def createDB_fail passed_on_def
          readDB_alt write_error_def split: if_splits)
  qed
qed

lemma readDB_w_corrupt: "readDB c0 w_corrupt = Inl (JsonError ''{'')"
  by (simp add: readDB_alt w_corrupt_def)

text \<open>
  Claim C3, as the code has it. Every error returned by a store operation is either
  passed on unchanged from the file read, the decoding or the file write, or it is an
  \<open>errors.errorString\<close> made by \<open>fmt.Errorf\<close> that carries nothing but its message:
  "user with email E already exists" from \<open>CreateUser\<close>, "user with email E doesn't
  exist" from \<open>UpdateUser\<close>, \<open>GetUser\<close>, \<open>DeleteUser\<close> and \<open>CreatePost\<close>, "post with
  id I doesn't exist" from \<open>GetPost\<close> and \<open>DeletePost\<close>. The package declares no error
  types: the error for an existing key and the error for a missing key have the same
  dynamic type and differ in their text only.
\<close>

theorem errors_passed_on_or_messages:
  "(fst (EnsureDB c w) = Err err \<longrightarrow> passed_on c w err) \<and>
   (fst (CreateUser c e pw nm ag w) = Err err \<longrightarrow>
      passed_on c w err \<or> err = ErrorString (''user with email '' @ e @ '' already exists'')) \<and>
   (fst (UpdateUser c e pw nm ag w) = Err err \<longrightarrow>
      passed_on c w err \<or> err = ErrorString (''user with email '' @ e @ '' doesn't exist'')) \<and>
   (GetUser c e w = Err err \<longrightarrow>
      readDB c w = Inl err \<or> err = ErrorString (''user with email '' @ e @ '' doesn't exist'')) \<and>
   (fst (DeleteUser c e w) = Err err \<longrightarrow>
      passed_on c w err \<or> err = ErrorString (''user with email '' @ e @ '' doesn't exist'')) \<and>
   (fst (CreatePost c e t w) = Err err \<longrightarrow>
      passed_on c w err \<or> err = ErrorString (''user with email '' @ e @ '' doesn't exist'')) \<and>
   (GetPost c k w = Err err \<longrightarrow>
      readDB c w = Inl err \<or> err = ErrorString (''post with id '' @ k @ '' doesn't exist'')) \<and>
   (GetPosts c e w = Err err \<longrightarrow> readDB c w = Inl err) \<and>
   (fst (DeletePost c k w) = Err err \<longrightarrow>
      passed_on c w err \<or> err = ErrorString (''post with id '' @ k @ '' doesn't exist'')) \<and>
   dynamic_type (ErrorString (''user with email '' @ e @ '' already exists'')) =
     dynamic_type (ErrorString (''user with email '' @ e @ '' doesn't exist''))"
  using err_EnsureDB[of c w err] err_CreateUser[of c e pw nm ag w err]
    err_UpdateUser[of c e pw nm ag w err] err_GetUser[of c e w err]
    err_DeleteUser[of c e w err] err_CreatePost[of c e t w err] err_GetPost[of c k w err]
    err_GetPosts[of c e w err] err_DeletePost[of c k w err]
  by simp

theorem errors_passed_on_or_messages_witness:
  "fst (EnsureDB c0 w_corrupt) = Err (JsonError ''{'') \<and>
   fst (CreateUser c0 ''a@x.com'' ''pw'' ''Ann'' 30 w_corrupt) = Err (JsonError ''{'') \<and>
   fst (UpdateUser c0 ''a@x.com'' ''pw'' ''Ann'' 30 w_corrupt) = Err (JsonError ''{'') \<and>
   GetUser c0 ''a@x.com'' w_corrupt = Err (JsonError ''{'') \<and>
   fst (DeleteUser c0 ''a@x.com'' w_corrupt) = Err (JsonError ''{'') \<and>
   fst (CreatePost c0 ''a@x.com'' ''hello'' w_corrupt) = Err (JsonError ''{'') \<and>
   GetPost c0 zero_id w_corrupt = Err (JsonError ''{'') \<and>
   GetPosts c0 ''a@x.com'' w_corrupt = Err (JsonError ''{'') \<and>
   fst (DeletePost c0 zero_id w_corrupt) = Err (JsonError ''{'') \<and>
   passed_on c0 w_corrupt (JsonError ''{'') \<and>
   readDB c0 w_corrupt = Inl (JsonError ''{'')"
proof -
  have f: "fs w_corrupt (path c0) = Content (Garbage ''{'')"
    by (simp add: w_corrupt_def)
  have r: "readDB c0 w_corrupt = Inl (JsonError ''{'')"
    by (rule readDB_w_corrupt)
  have ops: "fst (EnsureDB c0 w_corrupt) = Err (JsonError ''{'')"
    "fst (CreateUser c0 ''a@x.com'' ''pw'' ''Ann'' 30 w_corrupt) = Err (JsonError ''{'')"
    "fst (UpdateUser c0 ''a@x.com'' ''pw'' ''Ann'' 30 w_corrupt) = Err (JsonError ''{'')"
    "GetUser c0 ''a@x.com'' w_corrupt = Err (JsonError ''{'')"
    "fst (DeleteUser c0 ''a@x.com'' w_corrupt) = Err (JsonError ''{'')"
    "fst (CreatePost c0 ''a@x.com'' ''hello'' w_corrupt) = Err (JsonError ''{'')"
    "GetPost c0 zero_id w_corrupt = Err (JsonError ''{'')"
    "GetPosts c0 ''a@x.com'' w_corrupt = Err (JsonError ''{'')"
    "fst (DeletePost c0 zero_id w_corrupt) = Err (JsonError ''{'')"
    using r f
    by (simp_all add: EnsureDB_present[OF f] EnsureDB_check_def CreateUser_def UpdateUser_def GetUser_def
        DeleteUser_def CreatePost_def GetPost_def GetPosts_def DeletePost_def)
  from errors_passed_on_or_messages[of c0 w_corrupt "JsonError ''{''" "''a@x.com''" "''pw''"
      "''Ann''" 30 "''hello''" zero_id] ops r
  show ?thesis by simp
qed

text \<open>
  The claim as stated fails: on a store that holds the user \<open>a@x.com\<close>, creating that
  user again and looking up the absent \<open>b@x.com\<close> both return an \<open>errors.errorString\<close>,
  told apart by the message alone.
\<close>

theorem untyped_errors_counterexample:
  "fst (CreateUser c0 ''a@x.com'' ''other'' ''Bob'' 41 w_ann) =
     Err (ErrorString ''user with email a@x.com already exists'') \<and>
   GetUser c0 ''b@x.com'' w_ann = Err (ErrorString ''user with email b@x.com doesn't exist'') \<and>
   dynamic_type (ErrorString ''user with email a@x.com already exists'') =
     dynamic_type (ErrorString ''user with email b@x.com doesn't exist'')"
  by (simp add: CreateUser_def GetUser_def)

section \<open>Maps that stay present\<close>

text \<open>
  The document that \<open>createDB\<close> writes has both maps, and no operation removes a map:
  an assignment needs the map and keeps it, a deletion empties it at most.
\<close>

lemma maps_present_iff:
  "maps_present c w \<longleftrightarrow>
     (\<exists>db. readDB c w = Inr db \<and> Users db \<noteq> NilMap \<and> Posts db \<noteq> NilMap)"
  by (cases "readDB c w") (simp_all add: maps_present_def)

lemma maps_present_clock: "maps_present c (w\<lparr>clock := k\<rparr>) = maps_present c w"
  by (simp add: maps_present_def)

lemma maps_present_rand: "maps_present c (w\<lparr>rand := k\<rparr>) = maps_present c w"
  by (simp add: maps_present_def)

lemma map_assign_not_Nil: "map_assign m k v = Some m' \<Longrightarrow> m' \<noteq> NilMap"
  by (cases m) auto

lemma map_delete_Nil_iff: "map_delete m k = NilMap \<longleftrightarrow> m = NilMap"
  by (cases m) auto

lemma present_updateDB:
  assumes "maps_present c w" and "Users db' \<noteq> NilMap" and "Posts db' \<noteq> NilMap"
  shows "maps_present c (snd (updateDB c db' w))"
proof (cases "wr_fail w (path c)")
  case None
  then show ?thesis using assms(2,3) by (simp add: updateDB_ok maps_present_def)
next
  case (Some cause)
  then show ?thesis using assms(1) by (simp add: updateDB_fail)
qed

lemma present_CreateUser:
  assumes "maps_present c w"
  shows "maps_present c (snd (CreateUser c e pw nm ag w))"
proof -
  from assms obtain db where r: "readDB c w = Inr db"
    and u: "Users db \<noteq> NilMap" and p: "Posts db \<noteq> NilMap"
    by (auto simp: maps_present_iff)
  show ?thesis
    using r assms u p
    by (auto simp: CreateUser_def time_Now_UTC_def Let_def snd_write_result maps_present_clock
        intro!: present_updateDB dest: map_assign_not_Nil split: option.splits)
qed

lemma present_UpdateUser:
  assumes "maps_present c w"
  shows "maps_present c (snd (UpdateUser c e pw nm ag w))"
proof -
  from assms obtain db where r: "readDB c w = Inr db"
    and u: "Users db \<noteq> NilMap" and p: "Posts db \<noteq> NilMap"
    by (auto simp: maps_present_iff)
  show ?thesis
    using r assms u p
    by (auto simp: UpdateUser_def Let_def snd_write_result map_delete_Nil_iff
        intro!: present_updateDB dest: map_assign_not_Nil
        split: option.splits)
qed

lemma present_DeleteUser:
  assumes "maps_present c w"
  shows "maps_present c (snd (DeleteUser c e w))"
proof -
  from assms obtain db where r: "readDB c w = Inr db"
    and u: "Users db \<noteq> NilMap" and p: "Posts db \<noteq> NilMap"
    by (auto simp: maps_present_iff)
  show ?thesis
    using r assms u p
    by (auto simp: DeleteUser_def snd_write_result map_delete_Nil_iff
        intro!: present_updateDB split: option.splits)
qed

lemma present_DeletePost:
  assumes "maps_present c w"
  shows "maps_present c (snd (DeletePost c k w))"
proof -
  from assms obtain db where r: "readDB c w = Inr db"
    and u: "Users db \<noteq> NilMap" and p: "Posts db \<noteq> NilMap"
    by (auto simp: maps_present_iff)
  show ?thesis
    using r assms u p
    by (auto simp: DeletePost_def snd_write_result map_delete_Nil_iff
        intro!: present_updateDB split: option.splits)
qed

lemma present_CreatePost:
  assumes "maps_present c w"
  shows "maps_present c (snd (CreatePost c e t w))"
proof -
  from assms obtain db where r: "readDB c w = Inr db"
    and u: "Users db \<noteq> NilMap" and p: "Posts db \<noteq> NilMap"
    by (auto simp: maps_present_iff)
  show ?thesis
    using r assms u p
    by (auto simp: CreatePost_def uuid_NewString_def time_Now_UTC_def Let_def snd_write_result
        maps_present_clock maps_present_rand
        intro!: present_updateDB dest: map_assign_not_Nil
        split: option.splits result.splits)
qed

lemma present_EnsureDB:
  assumes "maps_present c w"
  shows "maps_present c (snd (EnsureDB c w))"
proof -
  from assms obtain db where r: "readDB c w = Inr db"
    by (auto simp: maps_present_iff)
  then have "EnsureDB c w = (Ok (), w)"
    by (simp add: readDB_iff EnsureDB_present EnsureDB_check_def)
  with assms show ?thesis by simp
qed

lemma present_exec: "maps_present c w \<Longrightarrow> maps_present c (exec c opn w)"
  by (cases opn)
     (simp_all add: present_EnsureDB present_CreateUser present_UpdateUser present_DeleteUser
        present_CreatePost present_DeletePost)

lemma present_run: "maps_present c w \<Longrightarrow> maps_present c (run c ops w)"
  by (induction ops arbitrary: w) (simp_all add: present_exec)

lemma present_from_empty:
  assumes "readDB c w = Inr \<lparr>Users = GoMap DAList.empty, Posts = GoMap DAList.empty\<rparr>"
  shows "maps_present c (run c ops w)"
proof -
  from assms have "maps_present c w" by (simp add: maps_present_def)
  then show ?thesis by (rule present_run)
qed

lemma CreateUser_nil:
  assumes "readDB c w = Inr db" and "Users db = NilMap"
  shows "CreateUser c e pw nm ag w =
           (Panic ''assignment to entry in nil map'', w\<lparr>clock := stl (clock w)\<rparr>)"
  using assms by (simp add: CreateUser_def time_Now_UTC_def Let_def)

lemma readDB_w_nil: "readDB c0 w_nil = Inr db_nil"
  by (simp add: readDB_iff w_nil_def)

lemma readDB_w_ann_noposts: "readDB c0 w_ann_noposts = Inr db_ann_noposts"
  by (simp add: readDB_iff w_ann_noposts_def)

section \<open>User operations: creation and lookup\<close>

text \<open>
  Claim C1, as the code has it. Let the file decode to a document in which \<open>e\<close> is not
  a key of the users map, and let the write succeed. When the users map is present,
  \<open>CreateUser e password name age\<close> returns the user made of exactly the supplied email,
  password, name and age, with \<open>createdAt\<close> the reading of the clock at the call; the
  stored document has that user under the key \<open>e\<close>, keeps every other user and all
  posts; and a following \<open>GetUser e\<close> returns the same user. When the document has no
  users member, the map is \<open>nil\<close> and the call panics at the assignment, after reading
  the clock and without writing. Every document reached from the one with two empty maps
  by the operations of the store has both maps.
\<close>

theorem CreateUser_then_GetUser:
  assumes "readDB c w = Inr db" and "map_index (Users db) e = None"
    and "wr_fail w (path c) = None"
  shows
   "(Users db \<noteq> NilMap \<longrightarrow>
      (let u = \<lparr>CreatedAt = shd (clock w), Email = e, Password = pw, Name = nm, Age = ag\<rparr>;
           (r, w') = CreateUser c e pw nm ag w
       in r = Ok u \<and>
          (\<exists>db'. readDB c w' = Inr db' \<and> map_index (Users db') e = Some u \<and>
             (\<forall>k. k \<noteq> e \<longrightarrow> map_index (Users db') k = map_index (Users db) k) \<and>
             Posts db' = Posts db) \<and>
          GetUser c e w' = Ok u)) \<and>
    (Users db = NilMap \<longrightarrow>
       CreateUser c e pw nm ag w =
         (Panic ''assignment to entry in nil map'', w\<lparr>clock := stl (clock w)\<rparr>)) \<and>
    (readDB c w0 = Inr \<lparr>Users = GoMap DAList.empty, Posts = GoMap DAList.empty\<rparr> \<longrightarrow>
       maps_present c (run c ops w0))"
proof (intro conjI impI)
  assume "Users db \<noteq> NilMap"
  then obtain us where us: "Users db = GoMap us"
    by (cases "Users db") auto
  show "let u = \<lparr>CreatedAt = shd (clock w), Email = e, Password = pw, Name = nm, Age = ag\<rparr>;
           (r, w') = CreateUser c e pw nm ag w
       in r = Ok u \<and>
          (\<exists>db'. readDB c w' = Inr db' \<and> map_index (Users db') e = Some u \<and>
             (\<forall>k. k \<noteq> e \<longrightarrow> map_index (Users db') k = map_index (Users db) k) \<and>
             Posts db' = Posts db) \<and>
          GetUser c e w' = Ok u"
    using assms[unfolded readDB_iff] us
    by (simp add: CreateUser_def time_Now_UTC_def updateDB_ok Let_def GetUser_def
        DAList.lookup_update readDB_alt)
next
  assume "Users db = NilMap"
  with assms(1) show "CreateUser c e pw nm ag w =
         (Panic ''assignment to entry in nil map'', w\<lparr>clock := stl (clock w)\<rparr>)"
    by (rule CreateUser_nil)
next
  assume "readDB c w0 = Inr \<lparr>Users = GoMap DAList.empty, Posts = GoMap DAList.empty\<rparr>"
  then show "maps_present c (run c ops w0)"
    by (rule present_from_empty)
qed

theorem CreateUser_then_GetUser_witness:
  "readDB c0 w_fresh = Inr emptyDB \<and> Users emptyDB \<noteq> NilMap \<and>
   map_index (Users emptyDB) ''a@x.com'' = None \<and> wr_fail w_fresh (path c0) = None \<and>
   fst (CreateUser c0 ''a@x.com'' ''pw'' ''Ann'' 30 w_fresh) =
     Ok \<lparr>CreatedAt = 0, Email = ''a@x.com'', Password = ''pw'', Name = ''Ann'', Age = 30\<rparr> \<and>
   GetUser c0 ''a@x.com'' (snd (CreateUser c0 ''a@x.com'' ''pw'' ''Ann'' 30 w_fresh)) =
     Ok \<lparr>CreatedAt = 0, Email = ''a@x.com'', Password = ''pw'', Name = ''Ann'', Age = 30\<rparr> \<and>
   readDB c0 w_nil = Inr db_nil \<and> Users db_nil = NilMap \<and>
   map_index (Users db_nil) ''a@x.com'' = None \<and> wr_fail w_nil (path c0) = None \<and>
   fst (CreateUser c0 ''a@x.com'' ''pw'' ''Ann'' 30 w_nil) =
     Panic ''assignment to entry in nil map'' \<and>
   readDB c0 w_fresh = Inr \<lparr>Users = GoMap DAList.empty, Posts = GoMap DAList.empty\<rparr> \<and>
   maps_present c0
     (run c0 [OpCreateUser ''a@x.com'' ''pw'' ''Ann'' 30, OpCreatePost ''a@x.com'' ''hello'',
              OpDeleteUser ''a@x.com'', OpDeletePost zero_id] w_fresh)"
proof -
  have h1: "readDB c0 w_fresh = Inr emptyDB" by simp
  have h2: "Users emptyDB \<noteq> NilMap" by (simp add: emptyDB_def)
  have h3: "map_index (Users emptyDB) ''a@x.com'' = None" by (simp add: emptyDB_def)
  have h4: "wr_fail w_fresh (path c0) = None" by simp
  have h5: "readDB c0 w_fresh = Inr \<lparr>Users = GoMap DAList.empty, Posts = GoMap DAList.empty\<rparr>"
    by (simp add: emptyDB_def)
  have n1: "readDB c0 w_nil = Inr db_nil" by (rule readDB_w_nil)
  have n2: "Users db_nil = NilMap" by (simp add: db_nil_def)
  have n3: "map_index (Users db_nil) ''a@x.com'' = None" by (simp add: db_nil_def)
  have n4: "wr_fail w_nil (path c0) = None" by (simp add: w_nil_def w_absent_def)
  have a: "fst (CreateUser c0 ''a@x.com'' ''pw'' ''Ann'' 30 w_fresh) =
     Ok \<lparr>CreatedAt = 0, Email = ''a@x.com'', Password = ''pw'', Name = ''Ann'', Age = 30\<rparr> \<and>
   GetUser c0 ''a@x.com'' (snd (CreateUser c0 ''a@x.com'' ''pw'' ''Ann'' 30 w_fresh)) =
     Ok \<lparr>CreatedAt = 0, Email = ''a@x.com'', Password = ''pw'', Name = ''Ann'', Age = 30\<rparr> \<and>
   maps_present c0
     (run c0 [OpCreateUser ''a@x.com'' ''pw'' ''Ann'' 30, OpCreatePost ''a@x.com'' ''hello'',
              OpDeleteUser ''a@x.com'', OpDeletePost zero_id] w_fresh)"
    using CreateUser_then_GetUser[OF h1 h3 h4, where pw = "''pw''" and nm = "''Ann''" and ag = 30
        and ?w0.0 = w_fresh
        and ops = "[OpCreateUser ''a@x.com'' ''pw'' ''Ann'' 30, OpCreatePost ''a@x.com'' ''hello'',
              OpDeleteUser ''a@x.com'', OpDeletePost zero_id]"] h2 h5
    by (simp add: Let_def split: prod.splits)
  have b: "fst (CreateUser c0 ''a@x.com'' ''pw'' ''Ann'' 30 w_nil) =
     Panic ''assignment to entry in nil map''"
    using CreateUser_then_GetUser[OF n1 n3 n4, where pw = "''pw''" and nm = "''Ann''" and ag = 30] n2
    by simp
  from a b h1 h2 h3 h4 h5 n1 n2 n3 n4 show ?thesis by simp
qed

text \<open>
  The claim as stated fails on the document \<open>{}\<close>: \<open>EnsureDB\<close> accepts it, no email
  is a key of its users map, and \<open>CreateUser\<close> panics instead of succeeding.
\<close>

theorem CreateUser_nil_map_counterexample:
  "fst (EnsureDB c0 w_nil) = Ok () \<and>
   readDB c0 w_nil = Inr \<lparr>Users = NilMap, Posts = NilMap\<rparr> \<and>
   map_index NilMap ''a@x.com'' = (None :: User option) \<and>
   fst (CreateUser c0 ''a@x.com'' ''pw'' ''Ann'' 30 w_nil) =
     Panic ''assignment to entry in nil map''"
proof -
  have f: "fs w_nil (path c0) = Content (Json db_nil)"
    by (simp add: w_nil_def)
  have r: "readDB c0 w_nil = Inr db_nil" by (rule readDB_w_nil)
  have n: "Users db_nil = NilMap" by (simp add: db_nil_def)
  show ?thesis
    using r by (simp add: EnsureDB_present[OF f] EnsureDB_check_def CreateUser_nil[OF r n]
        db_nil_def)
qed

section \<open>Creating posts\<close>

lemma length_hex_Encode: "length (hex_Encode vs) = 2 * length vs"
  by (induction vs) simp_all

lemma length_uuid_String: "length u = 16 \<Longrightarrow> length (uuid_String u) = 36"
  by (simp add: uuid_String_def length_hex_Encode)

lemma length_uuid_NewString: "length (fst (uuid_NewString w)) = 36"
  by (simp add: uuid_NewString_def Let_def length_uuid_String)

lemma snd_uuid_NewString: "snd (uuid_NewString w) = w\<lparr>rand := sdrop 16 (rand w)\<rparr>"
  by (simp add: uuid_NewString_def Let_def)

lemma stake16_sconst: "stake 16 (sconst x) = [x,x,x,x,x,x,x,x,x,x,x,x,x,x,x,x]"
  by (simp add: eval_nat_numeral)

lemma uuid_zero_bytes:
  "(let u0 = [0,0,0,0,0,0,0,0,0,0,0,0,0,0,0,0::8 word];
        u1 = u0[6 := (u0 ! 6 AND 0x0f) OR 0x40];
        u2 = u1[8 := (u1 ! 8 AND 0x3f) OR 0x80]
    in uuid_String u2) = ''00000000-0000-4000-8000-000000000000''"
  by code_simp

lemma uuid_NewString_zero: "rand w = sconst 0 \<Longrightarrow> fst (uuid_NewString w) = zero_id"
  unfolding uuid_NewString_def zero_id_def
  apply (simp only: stake16_sconst)
  using uuid_zero_bytes apply (simp add: Let_def)
  done

lemma length_AList_update_new:
  "k \<notin> fst ` set al \<Longrightarrow> length (AList.update k v al) = Suc (length al)"
  by (induction al) auto

lemma length_map_range_assign:
  assumes "map_assign m k v = Some m'" and "map_index m k = None"
  shows "length (map_range m') = Suc (length (map_range m))"
proof (cases m)
  case NilMap
  with assms show ?thesis by simp
next
  case (GoMap al)
  with assms have "k \<notin> fst ` set (DAList.impl_of al)"
    by (simp add: DAList.lookup.rep_eq map_of_eq_None_iff)
  with assms GoMap show ?thesis
    by (auto simp: DAList.update.rep_eq length_AList_update_new)
qed

lemma CreatePost_ok:
  assumes "readDB c w = Inr db" and "map_index (Users db) e = Some u"
    and "map_assign (Posts db) (fst (uuid_NewString w))
          \<lparr>ID = fst (uuid_NewString w), PostCreatedAt = shd (clock w), UserEmail = e, Text = t\<rparr>
         = Some ps'"
    and "wr_fail w (path c) = None"
  shows "CreatePost c e t w =
     (Ok \<lparr>ID = fst (uuid_NewString w), PostCreatedAt = shd (clock w), UserEmail = e, Text = t\<rparr>,
      w\<lparr>rand := sdrop 16 (rand w), clock := stl (clock w),
        fs := (fs w)(path c := Content (Json (db\<lparr>Posts := ps'\<rparr>)))\<rparr>)"
proof -
  have u: "uuid_NewString w = (fst (uuid_NewString w), w\<lparr>rand := sdrop 16 (rand w)\<rparr>)"
    using snd_uuid_NewString[of w] by (metis prod.collapse)
  show ?thesis
    using assms
    apply (simp add: CreatePost_def GetUser_def)
    apply (subst u)
    apply (simp add: time_Now_UTC_def Let_def updateDB_ok)
    done
qed

lemma CreatePost_no_user:
  assumes "readDB c w = Inr db" and "map_index (Users db) e = None"
  shows "CreatePost c e t w =
     (Err (ErrorString (''user with email '' @ e @ '' doesn't exist'')), w)"
  using assms by (simp add: CreatePost_def GetUser_def)


lemma GetPost_found:
  "readDB c w = Inr db \<Longrightarrow> map_index (Posts db) k = Some p \<Longrightarrow> GetPost c k w = Ok p"
  by (simp add: GetPost_def)

lemma sdrop_sconst_same: "sdrop n (sconst x) = sconst x"
  by (induction n) simp_all

lemma rand_w_ann [simp]: "rand w_ann = sconst 0"
  by (simp add: w_ann_def w_absent_def)

lemma rand_w_hello [simp]: "rand w_hello = sconst 0"
  by (simp add: w_hello_def w_absent_def)

lemma clock_w_ann [simp]: "shd (clock w_ann) = 0"
  by (simp add: w_ann_def w_absent_def)

lemma clock_w_hello [simp]: "shd (clock w_hello) = 0"
  by (simp add: w_hello_def w_absent_def)

lemma CreatePost_stores:
  assumes "readDB c w = Inr db" and "Posts db \<noteq> NilMap" and "wr_fail w (path c) = None"
  shows
   "(map_index (Users db) e' = None \<longrightarrow>
       CreatePost c e' t w =
         (Err (ErrorString (''user with email '' @ e' @ '' doesn't exist'')), w)) \<and>
    (map_index (Users db) e \<noteq> None \<longrightarrow>
      (let pid = fst (uuid_NewString w);
           p = \<lparr>ID = pid, PostCreatedAt = shd (clock w), UserEmail = e, Text = t\<rparr>;
           (r, w') = CreatePost c e t w
       in r = Ok p \<and> pid \<noteq> [] \<and>
          (\<exists>db'. readDB c w' = Inr db' \<and> Users db' = Users db \<and>
             map_index (Posts db') pid = Some p \<and>
             (\<forall>k. k \<noteq> pid \<longrightarrow> map_index (Posts db') k = map_index (Posts db) k) \<and>
             (map_index (Posts db) pid = None \<longrightarrow>
                length (map_range (Posts db')) = Suc (length (map_range (Posts db))))) \<and>
          (let pid2 = fst (uuid_NewString w');
               (r2, w2) = CreatePost c e t w'
           in \<exists>p2. r2 = Ok p2 \<and> ID p2 = pid2 \<and> UserEmail p2 = e \<and> Text p2 = t \<and>
                (pid2 \<noteq> pid \<longrightarrow> GetPost c pid w2 = Ok p \<and> GetPost c pid2 w2 = Ok p2))))"
proof (intro conjI impI)
  assume "map_index (Users db) e' = None"
  with assms(1) show "CreatePost c e' t w =
         (Err (ErrorString (''user with email '' @ e' @ '' doesn't exist'')), w)"
    by (rule CreatePost_no_user)
next
  assume "map_index (Users db) e \<noteq> None"
  then obtain u where u: "map_index (Users db) e = Some u" by auto
  define pid where "pid = fst (uuid_NewString w)"
  define p where "p = \<lparr>ID = pid, PostCreatedAt = shd (clock w), UserEmail = e, Text = t\<rparr>"
  from map_assign_Some[OF assms(2), of pid p]
  obtain ps' where ps': "map_assign (Posts db) pid p = Some ps'" ..
  define db' where "db' = db\<lparr>Posts := ps'\<rparr>"
  define w' where "w' = w\<lparr>rand := sdrop 16 (rand w), clock := stl (clock w),
        fs := (fs w)(path c := Content (Json db'))\<rparr>"
  have run1: "CreatePost c e t w = (Ok p, w')"
    using CreatePost_ok[OF assms(1) u ps'[unfolded pid_def p_def] assms(3)]
    by (simp add: p_def pid_def w'_def db'_def)
  have rd1: "readDB c w' = Inr db'"
    by (simp add: readDB_iff w'_def)
  have look1: "map_index ps' k = (if k = pid then Some p else map_index (Posts db) k)" for k
    using map_index_assign[OF ps'] by simp
  have nonempty: "pid \<noteq> []"
    using length_uuid_NewString[of w] by (auto simp: pid_def)
  have grow: "map_index (Posts db) pid = None \<longrightarrow>
      length (map_range (Posts db')) = Suc (length (map_range (Posts db)))"
    using length_map_range_assign[OF ps'] by (simp add: db'_def)
  define pid2 where "pid2 = fst (uuid_NewString w')"
  define p2 where "p2 = \<lparr>ID = pid2, PostCreatedAt = shd (clock w'), UserEmail = e, Text = t\<rparr>"
  have u': "map_index (Users db') e = Some u"
    using u by (simp add: db'_def)
  have "map_index (Posts db') pid = Some p"
    using look1[of pid] by (simp add: db'_def)
  then have "Posts db' \<noteq> NilMap"
    by (rule map_index_Some_not_Nil)
  from map_assign_Some[OF this, of pid2 p2]
  obtain ps2 where ps2: "map_assign (Posts db') pid2 p2 = Some ps2" ..
  have wr': "wr_fail w' (path c) = None"
    using assms(3) by (simp add: w'_def)
  define w2 where "w2 = w'\<lparr>rand := sdrop 16 (rand w'), clock := stl (clock w'),
        fs := (fs w')(path c := Content (Json (db'\<lparr>Posts := ps2\<rparr>)))\<rparr>"
  have run2: "CreatePost c e t w' = (Ok p2, w2)"
    using CreatePost_ok[OF rd1 u' ps2[unfolded pid2_def p2_def] wr']
    by (simp add: p2_def pid2_def w2_def)
  have rd2: "readDB c w2 = Inr (db'\<lparr>Posts := ps2\<rparr>)"
    by (simp add: readDB_iff w2_def)
  have look2: "map_index ps2 k = (if k = pid2 then Some p2 else map_index ps' k)" for k
    using map_index_assign[OF ps2] by (simp add: db'_def)
  have both: "pid2 \<noteq> pid \<longrightarrow> GetPost c pid w2 = Ok p \<and> GetPost c pid2 w2 = Ok p2"
    using GetPost_found[OF rd2] look2 look1 by simp
  have second: "let pid2 = fst (uuid_NewString w'); (r2, w2) = CreatePost c e t w'
           in \<exists>p2. r2 = Ok p2 \<and> ID p2 = pid2 \<and> UserEmail p2 = e \<and> Text p2 = t \<and>
                (pid2 \<noteq> pid \<longrightarrow> GetPost c pid w2 = Ok p \<and> GetPost c pid2 w2 = Ok p2)"
    using run2 both by (simp add: pid2_def[symmetric] p2_def)
  have first: "\<exists>db'. readDB c w' = Inr db' \<and> Users db' = Users db \<and>
             map_index (Posts db') pid = Some p \<and>
             (\<forall>k. k \<noteq> pid \<longrightarrow> map_index (Posts db') k = map_index (Posts db) k) \<and>
             (map_index (Posts db) pid = None \<longrightarrow>
                length (map_range (Posts db')) = Suc (length (map_range (Posts db))))"
    using rd1 look1 grow by (auto simp: db'_def)
  show "let pid = fst (uuid_NewString w);
           p = \<lparr>ID = pid, PostCreatedAt = shd (clock w), UserEmail = e, Text = t\<rparr>;
           (r, w') = CreatePost c e t w
       in r = Ok p \<and> pid \<noteq> [] \<and>
          (\<exists>db'. readDB c w' = Inr db' \<and> Users db' = Users db \<and>
             map_index (Posts db') pid = Some p \<and>
             (\<forall>k. k \<noteq> pid \<longrightarrow> map_index (Posts db') k = map_index (Posts db) k) \<and>
             (map_index (Posts db) pid = None \<longrightarrow>
                length (map_range (Posts db')) = Suc (length (map_range (Posts db))))) \<and>
          (let pid2 = fst (uuid_NewString w');
               (r2, w2) = CreatePost c e t w'
           in \<exists>p2. r2 = Ok p2 \<and> ID p2 = pid2 \<and> UserEmail p2 = e \<and> Text p2 = t \<and>
                (pid2 \<noteq> pid \<longrightarrow> GetPost c pid w2 = Ok p \<and> GetPost c pid2 w2 = Ok p2))"
    unfolding Let_def pid_def[symmetric] p_def[symmetric] run1 prod.case
    using nonempty first second[unfolded Let_def] by (intro conjI) simp_all
qed

lemma CreatePost_nil:
  assumes "readDB c w = Inr db" and "map_index (Users db) e = Some u" and "Posts db = NilMap"
  shows "CreatePost c e t w =
           (Panic ''assignment to entry in nil map'',
            w\<lparr>rand := sdrop 16 (rand w), clock := stl (clock w)\<rparr>)"
proof -
  have u: "uuid_NewString w = (fst (uuid_NewString w), w\<lparr>rand := sdrop 16 (rand w)\<rparr>)"
    using snd_uuid_NewString[of w] by (metis prod.collapse)
  show ?thesis
    using assms
    apply (simp add: CreatePost_def GetUser_def)
    apply (subst u)
    apply (simp add: time_Now_UTC_def Let_def)
    done
qed

text \<open>
  Claim C2, as the code has it. On a readable document and with a succeeding write,
  \<open>CreatePost e text\<close> fails with the "doesn't exist" error and changes nothing when no
  user is keyed by \<open>e\<close>. When the user exists and the posts map is present, it returns
  and stores a post with \<open>userEmail = e\<close>, the given text and the identifier that
  \<open>uuid.NewString\<close> produced, which is never empty. The identifier is not compared with
  the keys of the posts map: the post is stored under it, every entry under another key
  is kept, and when the identifier was not yet a key the map grows by one entry. Of two
  successive calls both succeed, and when their identifiers differ both posts can be read
  back. When the user exists and the document has no posts member, the call panics at
  the assignment without writing. Every document reached from the one with two empty maps
  by the operations of the store has both maps.
\<close>

theorem CreatePost_generated_id:
  assumes "readDB c w = Inr db" and "wr_fail w (path c) = None"
  shows
   "(map_index (Users db) e' = None \<longrightarrow>
       CreatePost c e' t w =
         (Err (ErrorString (''user with email '' @ e' @ '' doesn't exist'')), w)) \<and>
    (map_index (Users db) e \<noteq> None \<and> Posts db \<noteq> NilMap \<longrightarrow>
      (let pid = fst (uuid_NewString w);
           p = \<lparr>ID = pid, PostCreatedAt = shd (clock w), UserEmail = e, Text = t\<rparr>;
           (r, w') = CreatePost c e t w
       in r = Ok p \<and> pid \<noteq> [] \<and>
          (\<exists>db'. readDB c w' = Inr db' \<and> Users db' = Users db \<and>
             map_index (Posts db') pid = Some p \<and>
             (\<forall>k. k \<noteq> pid \<longrightarrow> map_index (Posts db') k = map_index (Posts db) k) \<and>
             (map_index (Posts db) pid = None \<longrightarrow>
                length (map_range (Posts db')) = Suc (length (map_range (Posts db))))) \<and>
          (let pid2 = fst (uuid_NewString w');
               (r2, w2) = CreatePost c e t w'
           in \<exists>p2. r2 = Ok p2 \<and> ID p2 = pid2 \<and> UserEmail p2 = e \<and> Text p2 = t \<and>
                (pid2 \<noteq> pid \<longrightarrow> GetPost c pid w2 = Ok p \<and> GetPost c pid2 w2 = Ok p2)))) \<and>
    (map_index (Users db) e \<noteq> None \<and> Posts db = NilMap \<longrightarrow>
       CreatePost c e t w =
         (Panic ''assignment to entry in nil map'',
          w\<lparr>rand := sdrop 16 (rand w), clock := stl (clock w)\<rparr>)) \<and>
    (readDB c w0 = Inr \<lparr>Users = GoMap DAList.empty, Posts = GoMap DAList.empty\<rparr> \<longrightarrow>
       maps_present c (run c ops w0))"
proof (intro conjI impI)
  assume "map_index (Users db) e' = None"
  with assms(1) show "CreatePost c e' t w =
         (Err (ErrorString (''user with email '' @ e' @ '' doesn't exist'')), w)"
    by (rule CreatePost_no_user)
next
  assume a: "map_index (Users db) e \<noteq> None \<and> Posts db \<noteq> NilMap"
  then have p: "Posts db \<noteq> NilMap" and u: "map_index (Users db) e \<noteq> None" by simp_all
  from CreatePost_stores[OF assms(1) p assms(2), where e = e and t = t] u
  show "let pid = fst (uuid_NewString w);
           p = \<lparr>ID = pid, PostCreatedAt = shd (clock w), UserEmail = e, Text = t\<rparr>;
           (r, w') = CreatePost c e t w
       in r = Ok p \<and> pid \<noteq> [] \<and>
          (\<exists>db'. readDB c w' = Inr db' \<and> Users db' = Users db \<and>
             map_index (Posts db') pid = Some p \<and>
             (\<forall>k. k \<noteq> pid \<longrightarrow> map_index (Posts db') k = map_index (Posts db) k) \<and>
             (map_index (Posts db) pid = None \<longrightarrow>
                length (map_range (Posts db')) = Suc (length (map_range (Posts db))))) \<and>
          (let pid2 = fst (uuid_NewString w');
               (r2, w2) = CreatePost c e t w'
           in \<exists>p2. r2 = Ok p2 \<and> ID p2 = pid2 \<and> UserEmail p2 = e \<and> Text p2 = t \<and>
                (pid2 \<noteq> pid \<longrightarrow> GetPost c pid w2 = Ok p \<and> GetPost c pid2 w2 = Ok p2))"
    by (rule conjunct2[THEN mp])
next
  assume a: "map_index (Users db) e \<noteq> None \<and> Posts db = NilMap"
  then obtain u where u: "map_index (Users db) e = Some u" by auto
  from a have "Posts db = NilMap" by simp
  with assms(1) u show "CreatePost c e t w =
         (Panic ''assignment to entry in nil map'',
          w\<lparr>rand := sdrop 16 (rand w), clock := stl (clock w)\<rparr>)"
    by (rule CreatePost_nil)
next
  assume "readDB c w0 = Inr \<lparr>Users = GoMap DAList.empty, Posts = GoMap DAList.empty\<rparr>"
  then show "maps_present c (run c ops w0)"
    by (rule present_from_empty)
qed

theorem CreatePost_generated_id_witness:
  "readDB c0 w_ann = Inr db_ann \<and> wr_fail w_ann (path c0) = None \<and>
   map_index (Users db_ann) ''b@x.com'' = None \<and>
   map_index (Users db_ann) ''a@x.com'' \<noteq> None \<and> Posts db_ann \<noteq> NilMap \<and>
   CreatePost c0 ''b@x.com'' ''hello'' w_ann =
     (Err (ErrorString ''user with email b@x.com doesn't exist''), w_ann) \<and>
   fst (CreatePost c0 ''a@x.com'' ''hello'' w_ann) = Ok hello \<and>
   map_index (Posts db_ann) zero_id = None \<and>
   readDB c0 w_ann_noposts = Inr db_ann_noposts \<and> wr_fail w_ann_noposts (path c0) = None \<and>
   map_index (Users db_ann_noposts) ''a@x.com'' \<noteq> None \<and> Posts db_ann_noposts = NilMap \<and>
   fst (CreatePost c0 ''a@x.com'' ''hello'' w_ann_noposts) =
     Panic ''assignment to entry in nil map'' \<and>
   readDB c0 w_fresh = Inr \<lparr>Users = GoMap DAList.empty, Posts = GoMap DAList.empty\<rparr> \<and>
   maps_present c0
     (run c0 [OpCreateUser ''a@x.com'' ''pw'' ''Ann'' 30, OpCreatePost ''a@x.com'' ''hello'',
              OpCreatePost ''a@x.com'' ''hello''] w_fresh)"
proof -
  have h1: "readDB c0 w_ann = Inr db_ann" by simp
  have h2: "Posts db_ann \<noteq> NilMap" by (simp add: db_ann_def)
  have h3: "wr_fail w_ann (path c0) = None" by simp
  have h4: "map_index (Posts db_ann) zero_id = None" by (simp add: db_ann_def)
  have h5: "readDB c0 w_fresh = Inr \<lparr>Users = GoMap DAList.empty, Posts = GoMap DAList.empty\<rparr>"
    by (simp add: emptyDB_def)
  have i: "fst (uuid_NewString w_ann) = zero_id"
    by (simp add: uuid_NewString_zero)
  have n1: "readDB c0 w_ann_noposts = Inr db_ann_noposts" by (rule readDB_w_ann_noposts)
  have n2: "wr_fail w_ann_noposts (path c0) = None" by (simp add: w_ann_noposts_def w_absent_def)
  have n3: "map_index (Users db_ann_noposts) ''a@x.com'' \<noteq> None"
    by (simp add: db_ann_noposts_def)
  have n4: "Posts db_ann_noposts = NilMap" by (simp add: db_ann_noposts_def)
  have a: "CreatePost c0 ''b@x.com'' ''hello'' w_ann =
     (Err (ErrorString ''user with email b@x.com doesn't exist''), w_ann) \<and>
   fst (CreatePost c0 ''a@x.com'' ''hello'' w_ann) = Ok hello \<and>
   maps_present c0
     (run c0 [OpCreateUser ''a@x.com'' ''pw'' ''Ann'' 30, OpCreatePost ''a@x.com'' ''hello'',
              OpCreatePost ''a@x.com'' ''hello''] w_fresh)"
    using CreatePost_generated_id[OF h1 h3, where e' = "''b@x.com''" and e = "''a@x.com''"
        and t = "''hello''" and ?w0.0 = w_fresh
        and ops = "[OpCreateUser ''a@x.com'' ''pw'' ''Ann'' 30, OpCreatePost ''a@x.com'' ''hello'',
              OpCreatePost ''a@x.com'' ''hello'']"] h2 h4 h5 i
    by (simp add: Let_def hello_def split: prod.splits)
  have b: "fst (CreatePost c0 ''a@x.com'' ''hello'' w_ann_noposts) =
     Panic ''assignment to entry in nil map''"
    using CreatePost_generated_id[OF n1 n2, where e = "''a@x.com''" and t = "''hello''"] n3 n4
    by simp
  from a b h1 h2 h3 h4 h5 n1 n2 n3 n4 show ?thesis by simp
qed

lemma CreatePost_w_hello:
  "CreatePost c0 ''a@x.com'' ''again'' w_hello =
     (Ok again,
      w_hello\<lparr>rand := sconst 0, clock := stl (clock w_hello),
        fs := (fs w_hello)(''./db.json'' := Content (Json (db_hello\<lparr>Posts :=
                GoMap (DAList.update zero_id again (DAList.update zero_id hello DAList.empty))\<rparr>)))\<rparr>)"
proof -
  have i: "fst (uuid_NewString w_hello) = zero_id"
    by (simp add: uuid_NewString_zero)
  have p: "\<lparr>ID = fst (uuid_NewString w_hello), PostCreatedAt = shd (clock w_hello),
             UserEmail = ''a@x.com'', Text = ''again''\<rparr> = again"
    by (simp add: i again_def)
  have a: "map_assign (Posts db_hello) (fst (uuid_NewString w_hello))
          \<lparr>ID = fst (uuid_NewString w_hello), PostCreatedAt = shd (clock w_hello),
             UserEmail = ''a@x.com'', Text = ''again''\<rparr>
         = Some (GoMap (DAList.update zero_id again (DAList.update zero_id hello DAList.empty)))"
    unfolding p by (simp add: i db_hello_def)
  have u: "map_index (Users db_hello) ''a@x.com'' = Some ann" by simp
  show ?thesis
    using CreatePost_ok[OF readDB_w_hello u a wr_fail_w_hello, unfolded p]
    by (simp add: sdrop_sconst_same)
qed

lemma CreatePost_w_ann:
  "CreatePost c0 ''a@x.com'' ''hello'' w_ann =
     (Ok hello,
      w_ann\<lparr>rand := sconst 0, clock := stl (clock w_ann),
        fs := (fs w_ann)(''./db.json'' := Content (Json db_hello))\<rparr>)"
proof -
  have i: "fst (uuid_NewString w_ann) = zero_id"
    by (simp add: uuid_NewString_zero)
  have p: "\<lparr>ID = fst (uuid_NewString w_ann), PostCreatedAt = shd (clock w_ann),
             UserEmail = ''a@x.com'', Text = ''hello''\<rparr> = hello"
    by (simp add: i hello_def)
  have a: "map_assign (Posts db_ann) (fst (uuid_NewString w_ann))
          \<lparr>ID = fst (uuid_NewString w_ann), PostCreatedAt = shd (clock w_ann),
             UserEmail = ''a@x.com'', Text = ''hello''\<rparr>
         = Some (GoMap (DAList.update zero_id hello DAList.empty))"
    unfolding p by (simp add: i db_ann_def)
  have u: "map_index (Users db_ann) ''a@x.com'' = Some ann" by simp
  have d: "db_ann\<lparr>Posts := GoMap (DAList.update zero_id hello DAList.empty)\<rparr> = db_hello"
    by (simp add: db_ann_def db_hello_def)
  show ?thesis
    using CreatePost_ok[OF readDB_w_ann u a wr_fail_w_ann, unfolded p d]
    by (simp add: sdrop_sconst_same)
qed

lemma CreatePost_w_ann_twice:
  "CreatePost c0 ''a@x.com'' ''hello''
     (w_ann\<lparr>rand := sconst 0, clock := stl (clock w_ann),
        fs := (fs w_ann)(''./db.json'' := Content (Json db_hello))\<rparr>) =
     (Ok hello1,
      w_ann\<lparr>rand := sconst 0, clock := stl (stl (clock w_ann)),
        fs := (fs w_ann)(''./db.json'' := Content (Json (db_hello\<lparr>Posts :=
                GoMap (DAList.update zero_id hello1 (DAList.update zero_id hello DAList.empty))\<rparr>)))\<rparr>)"
proof -
  let ?w = "w_ann\<lparr>rand := sconst 0, clock := stl (clock w_ann),
        fs := (fs w_ann)(''./db.json'' := Content (Json db_hello))\<rparr>"
  have i: "fst (uuid_NewString ?w) = zero_id"
    by (simp add: uuid_NewString_zero)
  have k: "shd (clock ?w) = 1"
    by (simp add: w_ann_def w_absent_def)
  have r: "readDB c0 ?w = Inr db_hello"
    by (simp add: readDB_iff)
  have p: "\<lparr>ID = fst (uuid_NewString ?w), PostCreatedAt = shd (clock ?w),
             UserEmail = ''a@x.com'', Text = ''hello''\<rparr> = hello1"
    unfolding i k by (simp add: hello1_def)
  have a: "map_assign (Posts db_hello) (fst (uuid_NewString ?w))
          \<lparr>ID = fst (uuid_NewString ?w), PostCreatedAt = shd (clock ?w),
             UserEmail = ''a@x.com'', Text = ''hello''\<rparr>
         = Some (GoMap (DAList.update zero_id hello1 (DAList.update zero_id hello DAList.empty)))"
    unfolding p by (subst i) (simp add: db_hello_def)
  have u: "map_index (Users db_hello) ''a@x.com'' = Some ann" by simp
  have wf: "wr_fail ?w (path c0) = None" by simp
  show ?thesis
    using CreatePost_ok[OF r u a wf, unfolded p]
    by (simp add: sdrop_sconst_same)
qed

text \<open>
  The claim as stated fails when the random source repeats itself: the store \<open>w_hello\<close>
  already has a post under the identifier that the next call generates, and the call
  succeeds and replaces it; two successive calls from \<open>w_ann\<close> return the same
  identifier, and afterwards the user has one post, not two.
\<close>

theorem CreatePost_reuses_id_counterexample:
  "readDB c0 w_hello = Inr db_hello \<and>
   map_index (Posts db_hello) zero_id = Some hello \<and>
   fst (CreatePost c0 ''a@x.com'' ''again'' w_hello) =
     Ok \<lparr>ID = zero_id, PostCreatedAt = 0, UserEmail = ''a@x.com'', Text = ''again''\<rparr> \<and>
   GetPost c0 zero_id (snd (CreatePost c0 ''a@x.com'' ''again'' w_hello)) =
     Ok \<lparr>ID = zero_id, PostCreatedAt = 0, UserEmail = ''a@x.com'', Text = ''again''\<rparr> \<and>
   fst (CreatePost c0 ''a@x.com'' ''hello'' w_ann) =
     Ok \<lparr>ID = zero_id, PostCreatedAt = 0, UserEmail = ''a@x.com'', Text = ''hello''\<rparr> \<and>
   fst (CreatePost c0 ''a@x.com'' ''hello'' (snd (CreatePost c0 ''a@x.com'' ''hello'' w_ann))) =
     Ok \<lparr>ID = zero_id, PostCreatedAt = 1, UserEmail = ''a@x.com'', Text = ''hello''\<rparr> \<and>
   GetPosts c0 ''a@x.com''
     (snd (CreatePost c0 ''a@x.com'' ''hello'' (snd (CreatePost c0 ''a@x.com'' ''hello'' w_ann)))) =
     Ok [\<lparr>ID = zero_id, PostCreatedAt = 1, UserEmail = ''a@x.com'', Text = ''hello''\<rparr>]"
proof (intro conjI)
  show "readDB c0 w_hello = Inr db_hello" by simp
  show "map_index (Posts db_hello) zero_id = Some hello" by simp
  show "fst (CreatePost c0 ''a@x.com'' ''again'' w_hello) =
     Ok \<lparr>ID = zero_id, PostCreatedAt = 0, UserEmail = ''a@x.com'', Text = ''again''\<rparr>"
    by (simp add: CreatePost_w_hello again_def)
  show "GetPost c0 zero_id (snd (CreatePost c0 ''a@x.com'' ''again'' w_hello)) =
     Ok \<lparr>ID = zero_id, PostCreatedAt = 0, UserEmail = ''a@x.com'', Text = ''again''\<rparr>"
    by (simp add: CreatePost_w_hello GetPost_def readDB_alt DAList.lookup_update again_def)
  show "fst (CreatePost c0 ''a@x.com'' ''hello'' w_ann) =
     Ok \<lparr>ID = zero_id, PostCreatedAt = 0, UserEmail = ''a@x.com'', Text = ''hello''\<rparr>"
    by (simp add: CreatePost_w_ann hello_def)
  show "fst (CreatePost c0 ''a@x.com'' ''hello'' (snd (CreatePost c0 ''a@x.com'' ''hello'' w_ann))) =
     Ok \<lparr>ID = zero_id, PostCreatedAt = 1, UserEmail = ''a@x.com'', Text = ''hello''\<rparr>"
    by (simp add: CreatePost_w_ann CreatePost_w_ann_twice hello1_def)
  show "GetPosts c0 ''a@x.com''
     (snd (CreatePost c0 ''a@x.com'' ''hello'' (snd (CreatePost c0 ''a@x.com'' ''hello'' w_ann)))) =
     Ok [\<lparr>ID = zero_id, PostCreatedAt = 1, UserEmail = ''a@x.com'', Text = ''hello''\<rparr>]"
    by (simp add: CreatePost_w_ann CreatePost_w_ann_twice GetPosts_def readDB_alt
        DAList.update.rep_eq DAList.empty.rep_eq hello1_def)
qed

end
